theory Spec2Isabelle
  imports Main
begin

section \<open>JavaScript values and strings\<close>

text \<open>
  The repository is JavaScript (a Next.js route handler and a React page). Values that
  travel as JSON are modelled by the datatype \<open>json\<close>; an object is an association list in
  insertion order (the order JavaScript keeps). \<open>undefined\<close> is the absence of a value, so
  a property read returns \<open>json option\<close>. A JSON number is an integer that a double holds
  exactly.

  A string is a list of UTF-16 code units below 256: the \<open>char\<close> of number \<open>n\<close> stands for the
  code unit \<open>n\<close> (so \<open>CHR 0xA0\<close> is the no-break space). On these strings case conversion and
  white space are modelled as JavaScript has them; a string with a code unit from 256 on is
  outside the model.
\<close>

datatype json =
    JNull
  | JBool bool
  | JNum int
  | JStr string
  | JArr "json list"
  | JObj "(string \<times> json) list"

text \<open>Truthiness of a value (\<open>!x\<close>, \<open>x || y\<close>, \<open>x ? a : b\<close>); \<open>None\<close> is \<open>undefined\<close>.\<close>

fun truthy :: "json option \<Rightarrow> bool" where
  "truthy None = False"
| "truthy (Some JNull) = False"
| "truthy (Some (JBool b)) = b"
| "truthy (Some (JNum n)) = (n \<noteq> 0)"
| "truthy (Some (JStr s)) = (s \<noteq> [])"
| "truthy (Some (JArr xs)) = True"
| "truthy (Some (JObj kvs)) = True"

text \<open>\<open>a || b\<close> on values, and on strings that may be \<open>undefined\<close> (\<open>process.env.X || d\<close>).\<close>

definition js_or :: "json option \<Rightarrow> json \<Rightarrow> json" where
  "js_or a b = (case a of None \<Rightarrow> b | Some v \<Rightarrow> if truthy (Some v) then v else b)"

definition str_or :: "string option \<Rightarrow> string \<Rightarrow> string" where
  "str_or a d = (case a of None \<Rightarrow> d | Some s \<Rightarrow> if s = [] then d else s)"

text \<open>
  Property read \<open>o.k\<close> on a non-null value; a key that is absent reads \<open>undefined\<close>. Should
  a list repeat a key, the last entry counts, as in \<open>JSON.parse\<close>.
\<close>

fun getp :: "json \<Rightarrow> string \<Rightarrow> json option" where
  "getp (JObj kvs) k = map_of (rev kvs) k"
| "getp v k = None"

text \<open>
  \<open>{...o, k: v}\<close>: the key keeps its place when the object has it, and is appended
  otherwise.
\<close>

fun set_key :: "string \<Rightarrow> json \<Rightarrow> (string \<times> json) list \<Rightarrow> (string \<times> json) list" where
  "set_key k v [] = [(k, v)]"
| "set_key k v ((k', v') # kvs) = (if k' = k then (k, v) # kvs else (k', v') # set_key k v kvs)"

text \<open>The fields of an object spread into a literal (\<open>{...o}\<close>); a non-object spreads nothing.\<close>

fun entries :: "json \<Rightarrow> (string \<times> json) list" where
  "entries (JObj kvs) = kvs"
| "entries v = []"

text \<open>Decimal digits of a number, as \<open>Number.prototype.toString\<close> and template strings print integers.\<close>

fun string_of_nat :: "nat \<Rightarrow> string" where
  "string_of_nat n =
     (if n < 10 then [''0123456789'' ! n]
      else string_of_nat (n div 10) @ [''0123456789'' ! (n mod 10)])"

declare string_of_nat.simps [simp del]

definition string_of_int :: "int \<Rightarrow> string" where
  "string_of_int i = (if i < 0 then CHR ''-'' # string_of_nat (nat (- i)) else string_of_nat (nat i))"

text \<open>\<open>Array.prototype.join(',')\<close> on strings.\<close>

fun join_comma :: "string list \<Rightarrow> string" where
  "join_comma [] = []"
| "join_comma [s] = s"
| "join_comma (s # t # ss) = s @ CHR '','' # join_comma (t # ss)"

text \<open>\<open>String(v)\<close> of a JSON value; an array joins its elements, \<open>null\<close> elements printing empty.\<close>

primrec js_String :: "json \<Rightarrow> string" where
  "js_String JNull = ''null''"
| "js_String (JBool b) = (if b then ''true'' else ''false'')"
| "js_String (JNum n) = string_of_int n"
| "js_String (JStr s) = s"
| "js_String (JArr xs) = join_comma (map (\<lambda>x. if x = JNull then [] else js_String x) xs)"
| "js_String (JObj kvs) = ''[object Object]''"

text \<open>
  \<open>String.prototype.toLowerCase\<close>: the letters \<open>A\<close> to \<open>Z\<close>, and the capital letters of the
  range \<open>0xC0\<close> to \<open>0xDE\<close> (the multiplication sign \<open>0xD7\<close> is not one), move up by 32.
\<close>

definition lower_char :: "char \<Rightarrow> char" where
  "lower_char c =
     (case map_of
        (zip (''ABCDEFGHIJKLMNOPQRSTUVWXYZ''
              @ [CHR 0xC0, CHR 0xC1, CHR 0xC2, CHR 0xC3, CHR 0xC4, CHR 0xC5, CHR 0xC6, CHR 0xC7,
                 CHR 0xC8, CHR 0xC9, CHR 0xCA, CHR 0xCB, CHR 0xCC, CHR 0xCD, CHR 0xCE, CHR 0xCF,
                 CHR 0xD0, CHR 0xD1, CHR 0xD2, CHR 0xD3, CHR 0xD4, CHR 0xD5, CHR 0xD6,
                 CHR 0xD8, CHR 0xD9, CHR 0xDA, CHR 0xDB, CHR 0xDC, CHR 0xDD, CHR 0xDE])
             (''abcdefghijklmnopqrstuvwxyz''
              @ [CHR 0xE0, CHR 0xE1, CHR 0xE2, CHR 0xE3, CHR 0xE4, CHR 0xE5, CHR 0xE6, CHR 0xE7,
                 CHR 0xE8, CHR 0xE9, CHR 0xEA, CHR 0xEB, CHR 0xEC, CHR 0xED, CHR 0xEE, CHR 0xEF,
                 CHR 0xF0, CHR 0xF1, CHR 0xF2, CHR 0xF3, CHR 0xF4, CHR 0xF5, CHR 0xF6,
                 CHR 0xF8, CHR 0xF9, CHR 0xFA, CHR 0xFB, CHR 0xFC, CHR 0xFD, CHR 0xFE])) c of
        None \<Rightarrow> c | Some d \<Rightarrow> d)"

definition toLowerCase :: "string \<Rightarrow> string" where
  "toLowerCase s = map lower_char s"

text \<open>\<open>s.startsWith(t)\<close> and \<open>s.includes(t)\<close>.\<close>

fun startsWith :: "string \<Rightarrow> string \<Rightarrow> bool" where
  "startsWith s [] = True"
| "startsWith [] (c # t) = False"
| "startsWith (d # s) (c # t) = (d = c \<and> startsWith s t)"

fun str_includes :: "string \<Rightarrow> string \<Rightarrow> bool" where
  "str_includes [] t = (t = [])"
| "str_includes (c # s) t = (startsWith (c # s) t \<or> str_includes s t)"

text \<open>\<open>s.replace(/\/$/, '')\<close>: one slash at the very end of the string is removed.\<close>

definition stripTrailingSlash :: "string \<Rightarrow> string" where
  "stripTrailingSlash s = (if s \<noteq> [] \<and> last s = CHR ''/'' then butlast s else s)"

text \<open>
  An object literal: later keys override earlier ones in place, and a property whose value is
  \<open>undefined\<close> does not reach the JSON text (\<open>JSON.stringify\<close> drops it).
\<close>

definition object :: "(string \<times> json option) list \<Rightarrow> json" where
  "object kvs =
     JObj (foldl (\<lambda>acc (k, v). case v of None \<Rightarrow> acc | Some w \<Rightarrow> set_key k w acc) [] kvs)"

text \<open>The fields of an object as the entries of a literal that spreads it.\<close>

definition spread :: "json \<Rightarrow> (string \<times> json option) list" where
  "spread v = map (\<lambda>(k, w). (k, Some w)) (entries v)"

text \<open>\<open>!s\<close> for a string that may be \<open>null\<close> or \<open>undefined\<close>.\<close>

definition str_falsy :: "string option \<Rightarrow> bool" where
  "str_falsy a = (case a of None \<Rightarrow> True | Some s \<Rightarrow> s = [])"

subsection \<open>Numbers\<close>

text \<open>
  A JavaScript number that \<open>parseInt\<close> can return: \<open>NaN\<close>, or \<open>Num n\<close>, the number value of the
  mathematical integer \<open>n\<close> that the digits denote (\<open>n\<close> itself up to \<open>2^53\<close>; beyond that a
  double near \<open>n\<close>, or \<open>Infinity\<close>).
\<close>

datatype number = NaN | Num int

text \<open>
  White space and line terminators as \<open>parseInt\<close> skips them (\<open>StrWhiteSpaceChar\<close>), among the
  code units below 256: tab, line feed, vertical tab, form feed, carriage return, space and
  the no-break space.
\<close>

definition isWhiteSpace :: "char \<Rightarrow> bool" where
  "isWhiteSpace c =
     (c \<in> set [CHR 0x09, CHR 0x0A, CHR 0x0B, CHR 0x0C, CHR 0x0D, CHR 0x20, CHR 0xA0])"

definition digitValue :: "char \<Rightarrow> nat option" where
  "digitValue c =
     map_of (zip ''0123456789abcdefghijklmnopqrstuvwxyz''
               [0, 1, 2, 3, 4, 5, 6, 7, 8, 9, 10, 11, 12, 13, 14, 15, 16, 17, 18, 19, 20, 21,
                22, 23, 24, 25, 26, 27, 28, 29, 30, 31, 32, 33, 34, 35])
       (lower_char c)"

text \<open>
  \<open>parseInt(string)\<close> with no radix (ECMAScript 19.2.5): leading white space is dropped, a
  sign is read, a \<open>0x\<close> prefix selects radix 16, the longest run of digits is the value, and
  no digit at all gives \<open>NaN\<close>.
\<close>

definition parseInt :: "string \<Rightarrow> number" where
  "parseInt inputString =
     (let S = dropWhile isWhiteSpace inputString;
          sign = (if startsWith S ''-'' then - 1 else (1::int));
          S1 = (if startsWith S ''+'' \<or> startsWith S ''-'' then tl S else S);
          hex = (startsWith S1 ''0x'' \<or> startsWith S1 ''0X'');
          R = (if hex then 16 else (10::nat));
          S2 = (if hex then drop 2 S1 else S1);
          Z = takeWhile (\<lambda>c. case digitValue c of None \<Rightarrow> False | Some d \<Rightarrow> d < R) S2
      in if Z = [] then NaN
         else Num (sign * int (foldl (\<lambda>a c. a * R + (case digitValue c of None \<Rightarrow> 0 | Some d \<Rightarrow> d)) 0 Z)))"

section \<open>The resource server: GET of app/api/premium/route.js\<close>

text \<open>
  \<open>process.env\<close> is a map from names to strings. The request is its URL text and its
  headers (\<open>request.headers.get\<close>, names in lower case).
\<close>

type_synonym env = "string \<rightharpoonup> string"

record request =
  url :: string
  headers :: "string \<rightharpoonup> string"

record URL =
  origin :: string
  pathname :: string

datatype chain = Base | BaseSepolia

text \<open>
  The argument of thirdweb's \<open>settlePayment\<close>; the facilitator object (\<open>client\<close> with its
  secret key, \<open>serverWalletAddress\<close>, \<open>vaultAccessToken\<close>) and \<open>routeConfig\<close> are flattened
  into it.
\<close>

record settle_args =
  arg_resourceUrl :: string
  arg_method :: string
  arg_paymentData :: string
  arg_payTo :: string
  arg_network :: chain
  arg_price :: string
  arg_secretKey :: string
  arg_serverWalletAddress :: string
  arg_vaultAccessToken :: string
  arg_description :: string
  arg_mimeType :: string
  arg_maxTimeoutSeconds :: int

record settle_result =
  result_status :: nat
  result_responseBody :: "json option"
  result_responseHeaders :: "(string \<times> string) list option"

text \<open>
  What the handlers call outside the repository. A call that throws returns \<open>Inl\<close> of the
  error's \<open>message\<close>.
  \<^item> \<open>parseURL\<close>: \<open>new URL(s)\<close>;
  \<^item> \<open>toFixed n d\<close>: the text of \<open>(n / 1_000_000).toFixed(d)\<close> for an integer \<open>n\<close> (double
    arithmetic, not modelled);
  \<^item> \<open>bigToString n\<close>: the text that \<open>toString()\<close> gives for the number value of an integer \<open>n\<close>
    beyond \<open>2^53\<close> (rounding to a double, exponent form from \<open>1e21\<close>, \<open>Infinity\<close>; not
    modelled);
  \<^item> \<open>createThirdwebClient secretKey\<close> and \<open>facilitator secretKey serverWalletAddress
    vaultAccessToken\<close>: thirdweb's two constructors, which return an object made of their
    arguments or throw;
  \<^item> \<open>settlePayment\<close>: thirdweb's verify-and-settle call, the one with an external effect;
  \<^item> \<open>decodePayment\<close>: \<open>decodePayment\<close> of \<open>x402/schemes\<close>;
  \<^item> \<open>facilitatorSettle url body\<close>: the POST to the facilitator's \<open>/settle\<close> and the JSON of its
    reply, with \<open>response.ok\<close>;
  \<^item> the file system and \<open>path\<close>.
\<close>

record platform =
  parseURL :: "string \<Rightarrow> string + URL"
  toFixed :: "int \<Rightarrow> nat \<Rightarrow> string"
  bigToString :: "int \<Rightarrow> string"
  createThirdwebClient :: "string \<Rightarrow> string + unit"
  facilitator :: "string \<Rightarrow> string \<Rightarrow> string \<Rightarrow> string + unit"
  settlePayment :: "settle_args \<Rightarrow> string + settle_result"
  decodePayment :: "string \<Rightarrow> string + json"
  facilitatorSettle :: "string \<Rightarrow> json \<Rightarrow> string + (bool \<times> json)"
  existsSync :: "string \<Rightarrow> bool"
  readFileSync :: "string \<Rightarrow> string + string"
  statSync :: "string \<Rightarrow> string + nat"
  path_isAbsolute :: "string \<Rightarrow> bool"
  path_join :: "string \<Rightarrow> string \<Rightarrow> string"
  cwd :: string

text \<open>
  The calls a handler made to the facilitator and to the file system, in order. (The two
  constructors build objects and are not listed.)
\<close>

datatype effect =
    Settle settle_args
  | FacilitatorPost string json
  | ExistsSync string
  | ReadFileSync string
  | StatSync string

datatype body = Json json | Buffer string

record response =
  status :: nat
  responseHeaders :: "(string \<times> string) list"
  body :: body

definition jsonResponse :: "json \<Rightarrow> nat \<Rightarrow> (string \<times> string) list \<Rightarrow> response" where
  "jsonResponse j st hs = \<lparr>status = st, responseHeaders = hs, body = Json j\<rparr>"

subsection \<open>Module constants\<close>

definition MERCHANT_ADDRESS :: "env \<Rightarrow> string" where
  "MERCHANT_ADDRESS env =
     str_or (env ''MERCHANT_ADDRESS'') ''0x0000000000000000000000000000000000000000''"

definition SERVER_WALLET_ADDRESS :: "env \<Rightarrow> string" where
  "SERVER_WALLET_ADDRESS env = str_or (env ''SERVER_WALLET_ADDRESS'') (MERCHANT_ADDRESS env)"

definition NETWORK :: "env \<Rightarrow> string" where
  "NETWORK env = str_or (env ''NEXT_PUBLIC_NETWORK'') ''base''"

definition USDC_ADDRESSES :: "string \<rightharpoonup> string" where
  "USDC_ADDRESSES = map_of
     [(''base-sepolia'', ''0x036CbD53842c5426634e7929541eC2318f3dCF7e''),
      (''base'', ''0x833589fCD6eDb6E08f4c7C32D4f71b54bdA02913''),
      (''base:84532'', ''0x036CbD53842c5426634e7929541eC2318f3dCF7e''),
      (''base:8453'', ''0x833589fCD6eDb6E08f4c7C32D4f71b54bdA02913'')]"

definition USDC_METADATA :: "string \<rightharpoonup> string \<times> string" where
  "USDC_METADATA = map_of
     [(''base-sepolia'', (''USDC'', ''2'')),
      (''base'', (''USD Coin'', ''2''))]"

definition PAYMENT_AMOUNT :: "env \<Rightarrow> number" where
  "PAYMENT_AMOUNT env = parseInt (str_or (env ''PAYMENT_AMOUNT'') ''100000'')"

definition PAYMENT_DESCRIPTION :: string where
  "PAYMENT_DESCRIPTION = ''Access to premium video content''"

definition PAYMENT_MIME_TYPE :: string where
  "PAYMENT_MIME_TYPE = ''video/mp4''"

definition PAYMENT_TIMEOUT_SECONDS :: int where
  "PAYMENT_TIMEOUT_SECONDS = 86400"

definition MAINNET_ALIASES :: "string list" where
  "MAINNET_ALIASES = [''base'', ''base:8453'', ''eip155:8453'']"

text \<open>
  \<open>Number.prototype.toString()\<close>: \<open>NaN\<close> prints as such and an integer up to \<open>2^53\<close> prints its
  decimal digits.
\<close>

definition number_toString :: "platform \<Rightarrow> number \<Rightarrow> string" where
  "number_toString P x =
     (case x of
        NaN \<Rightarrow> ''NaN''
      | Num n \<Rightarrow> if \<bar>n\<bar> \<le> 9007199254740992 then string_of_int n else bigToString P n)"

text \<open>\<open>(PAYMENT_AMOUNT / 1_000_000).toFixed(d)\<close>: \<open>NaN\<close> stays \<open>NaN\<close> and prints as such.\<close>

definition amountToFixed :: "platform \<Rightarrow> number \<Rightarrow> nat \<Rightarrow> string" where
  "amountToFixed P x d = (case x of NaN \<Rightarrow> ''NaN'' | Num n \<Rightarrow> toFixed P n d)"

subsection \<open>resolveNetworkConfig, buildResourceUrl, buildPaymentConfig\<close>

record network_config =
  isMainnet :: bool
  x402Network :: string
  displayNetwork :: string
  networkName :: string
  usdcAddress :: "string option"

definition resolveNetworkConfig :: "string \<Rightarrow> network_config" where
  "resolveNetworkConfig networkInput =
     (let normalized = toLowerCase networkInput;
          mainnet = (normalized \<in> set MAINNET_ALIASES)
      in \<lparr>isMainnet = mainnet,
          x402Network = (if mainnet then ''base'' else ''base-sepolia''),
          displayNetwork = (if mainnet then ''base:8453'' else ''base:84532''),
          networkName = (if mainnet then ''Base'' else ''Base Sepolia''),
          usdcAddress = USDC_ADDRESSES (if mainnet then ''base'' else ''base-sepolia'')\<rparr>)"

definition buildResourceUrl :: "platform \<Rightarrow> env \<Rightarrow> request \<Rightarrow> string + string" where
  "buildResourceUrl P env request =
     (if url request \<noteq> [] then
        (case parseURL P (url request) of
           Inl message \<Rightarrow> Inl message
         | Inr requestUrlObj \<Rightarrow>
             Inr (origin requestUrlObj @ stripTrailingSlash (pathname requestUrlObj)))
      else
        Inr (stripTrailingSlash (str_or (env ''NEXT_PUBLIC_APP_URL'') ''http://localhost:3000'')
             @ ''/api/premium''))"

record payment_config =
  resourceUrl :: string
  network :: network_config
  payment :: json
  x402Requirements :: json

definition buildPaymentConfig :: "platform \<Rightarrow> env \<Rightarrow> request \<Rightarrow> string + payment_config" where
  "buildPaymentConfig P env request =
     (let net = resolveNetworkConfig (NETWORK env);
          usdcMetadata = (case USDC_METADATA (x402Network net) of
                            None \<Rightarrow> (''USD Coin'', ''2'') | Some m \<Rightarrow> m)
      in case buildResourceUrl P env request of
           Inl message \<Rightarrow> Inl message
         | Inr resUrl \<Rightarrow>
             let amountString = number_toString P (PAYMENT_AMOUNT env);
                 requirements = object
                   [(''scheme'', Some (JStr ''exact'')),
                    (''network'', Some (JStr (x402Network net))),
                    (''maxAmountRequired'', Some (JStr amountString)),
                    (''resource'', Some (JStr resUrl)),
                    (''description'', Some (JStr PAYMENT_DESCRIPTION)),
                    (''mimeType'', Some (JStr PAYMENT_MIME_TYPE)),
                    (''payTo'', Some (JStr (MERCHANT_ADDRESS env))),
                    (''maxTimeoutSeconds'', Some (JNum PAYMENT_TIMEOUT_SECONDS)),
                    (''asset'', map_option JStr (usdcAddress net)),
                    (''extra'', Some (object
                       [(''name'', Some (JStr (fst usdcMetadata))),
                        (''version'', Some (JStr (snd usdcMetadata))),
                        (''primaryType'', Some (JStr ''TransferWithAuthorization'')),
                        (''recipientAddress'', Some (JStr (MERCHANT_ADDRESS env)))]))];
                 paymentObj = object
                   [(''scheme'', Some (JStr ''exact'')),
                    (''network'', Some (JStr (displayNetwork net))),
                    (''networkName'', Some (JStr (networkName net))),
                    (''token'', map_option JStr (usdcAddress net)),
                    (''recipient'', Some (JStr (MERCHANT_ADDRESS env))),
                    (''amount'', Some (JStr amountString)),
                    (''displayAmount'',
                       Some (JStr (amountToFixed P (PAYMENT_AMOUNT env) 6 @ '' USDC''))),
                    (''description'', Some (JStr PAYMENT_DESCRIPTION)),
                    (''x402Requirements'', Some requirements)]
             in Inr \<lparr>resourceUrl = resUrl, network = net, payment = paymentObj,
                      x402Requirements = requirements\<rparr>)"

subsection \<open>GET\<close>

text \<open>The string behind a value that was tested to be non-empty.\<close>

definition str_value :: "string option \<Rightarrow> string" where
  "str_value a = (case a of None \<Rightarrow> [] | Some s \<Rightarrow> s)"

text \<open>
  The block that serves the protected video, the same text in both handlers: the path is
  resolved, \<open>fs.existsSync\<close> is asked, the file is read and measured. \<open>paymentNetwork\<close> is the
  value of the \<open>X-Payment-Network\<close> header.
\<close>

definition videoRelativePath :: "platform \<Rightarrow> env \<Rightarrow> string" where
  "videoRelativePath P env =
     str_or (env ''VIDEO_PATH'')
       (path_join P ''resources '' ''ssstik.io_@wilcoxxspace_1761512614937.mp4'')"

definition videoAbsolutePath :: "platform \<Rightarrow> env \<Rightarrow> string" where
  "videoAbsolutePath P env =
     (if path_isAbsolute P (videoRelativePath P env) then videoRelativePath P env
      else path_join P (cwd P) (videoRelativePath P env))"

definition serveVideo :: "platform \<Rightarrow> env \<Rightarrow> string \<Rightarrow> response \<times> effect list" where
  "serveVideo P env paymentNetwork =
     (let fileError = (\<lambda>message. jsonResponse (object
            [(''error'', Some (JStr ''Video file error'')),
             (''message'', Some (JStr ''Payment verified but video file could not be served.'')),
             (''details'', Some (JStr message))]) 500 []);
          videoPath = videoAbsolutePath P env
      in if \<not> existsSync P videoPath then
           (jsonResponse (object
              [(''error'', Some (JStr ''Video file not found'')),
               (''message'', Some (JStr ''The protected video resource is not available.''))]) 500 [],
            [ExistsSync videoPath])
         else
           (case readFileSync P videoPath of
              Inl message \<Rightarrow>
                (fileError message, [ExistsSync videoPath, ReadFileSync videoPath])
            | Inr videoBuffer \<Rightarrow>
                (case statSync P videoPath of
                   Inl message \<Rightarrow>
                     (fileError message,
                      [ExistsSync videoPath, ReadFileSync videoPath,
                       StatSync videoPath])
                 | Inr videoSize \<Rightarrow>
                     (\<lparr>status = 200,
                       responseHeaders =
                         [(''Content-Type'', ''video/mp4''),
                          (''Content-Length'', string_of_nat videoSize),
                          (''Accept-Ranges'', ''bytes''),
                          (''Cache-Control'', ''private, no-cache''),
                          (''X-Payment-Verified'', ''true''),
                          (''X-Payment-Network'', paymentNetwork)],
                       body = Buffer videoBuffer\<rparr>,
                      [ExistsSync videoPath, ReadFileSync videoPath,
                       StatSync videoPath]))))"

text \<open>
  The argument that \<open>GET\<close> builds for \<open>settlePayment\<close> (route.js, lines 738 to 776): the
  chain and the price come from the configuration, \<open>paymentData\<close> is the header as received.
\<close>

definition settlementArgs ::
  "platform \<Rightarrow> env \<Rightarrow> payment_config \<Rightarrow> string \<Rightarrow> string \<Rightarrow> string \<Rightarrow> settle_args" where
  "settlementArgs P env paymentConfig xPaymentHeader thirdwebSecretKey vaultAccessToken =
     (let chain = (if isMainnet (network paymentConfig) then Base else BaseSepolia);
          priceInDollars = amountToFixed P (PAYMENT_AMOUNT env) 2;
          priceString = CHR ''$'' # priceInDollars
      in \<lparr>arg_resourceUrl = resourceUrl paymentConfig,
          arg_method = ''GET'',
          arg_paymentData = xPaymentHeader,
          arg_payTo = MERCHANT_ADDRESS env,
          arg_network = chain,
          arg_price = priceString,
          arg_secretKey = thirdwebSecretKey,
          arg_serverWalletAddress = SERVER_WALLET_ADDRESS env,
          arg_vaultAccessToken = vaultAccessToken,
          arg_description = PAYMENT_DESCRIPTION,
          arg_mimeType = PAYMENT_MIME_TYPE,
          arg_maxTimeoutSeconds = PAYMENT_TIMEOUT_SECONDS\<rparr>)"

text \<open>
  The handler of route.js (line 681); the file also holds an earlier version of it (line 129),
  which is not modelled. The result is \<open>Inl\<close> when the handler itself throws
  (\<open>buildPaymentConfig\<close> runs outside the \<open>try\<close>), and otherwise the response with the calls
  made. Inside the \<open>try\<close>, \<open>Inl message\<close> is a thrown error on its way to the outer \<open>catch\<close>:
  \<open>createThirdwebClient\<close> (line 720), \<open>facilitator\<close> (line 738) and \<open>settlePayment\<close> (line 763)
  can throw. The status that \<open>settlePayment\<close> reports is taken to be one that a response
  accepts (200 to 599).
\<close>

definition GET :: "platform \<Rightarrow> env \<Rightarrow> request \<Rightarrow> string + response \<times> effect list" where
  "GET P env request =
     (case buildPaymentConfig P env request of
        Inl message \<Rightarrow> Inl message
      | Inr paymentConfig \<Rightarrow>
          let xPaymentHeader = headers request ''x-payment'' in
          if str_falsy xPaymentHeader then
            Inr (jsonResponse (object
                   ([(''x402Version'', Some (JNum 1))]
                    @ spread (x402Requirements paymentConfig)
                    @ [(''accepts'', Some (JArr [x402Requirements paymentConfig])),
                       (''payment'', Some (payment paymentConfig))])) 402 [],
                 [])
          else
            (case
               (let thirdwebSecretKey = env ''THIRDWEB_SECRET_KEY'' in
                if str_falsy thirdwebSecretKey then
                  (Inr (jsonResponse (object
                     [(''error'', Some (JStr ''Server configuration error'')),
                      (''message'', Some (JStr ''Payment system not configured.''))]) 500 []),
                   [])
                else
                  (case createThirdwebClient P (str_value thirdwebSecretKey) of
                     Inl message \<Rightarrow> (Inl message, [])
                   | Inr client \<Rightarrow>
                       let vaultAccessToken = env ''THIRDWEB_VAULT_ACCESS_TOKEN'' in
                       if str_falsy vaultAccessToken then
                         (Inr (jsonResponse (object
                            [(''error'', Some (JStr ''Server configuration error'')),
                             (''message'',
                                Some (JStr ''Wallet access credentials not configured.''))])
                            500 []),
                          [])
                       else
                         (case facilitator P (str_value thirdwebSecretKey)
                                 (SERVER_WALLET_ADDRESS env) (str_value vaultAccessToken) of
                            Inl message \<Rightarrow> (Inl message, [])
                          | Inr thirdwebFacilitator \<Rightarrow>
                              let args = settlementArgs P env paymentConfig
                                           (str_value xPaymentHeader)
                                           (str_value thirdwebSecretKey)
                                           (str_value vaultAccessToken)
                              in case settlePayment P args of
                                   Inl message \<Rightarrow> (Inl message, [Settle args])
                                 | Inr result \<Rightarrow>
                                     if result_status result \<noteq> 200 then
                                       (Inr (jsonResponse
                                          (js_or (result_responseBody result)
                                             (object [(''error'',
                                                Some (JStr ''Payment verification failed''))]))
                                          (result_status result)
                                          (case result_responseHeaders result of
                                             None \<Rightarrow> [] | Some hs \<Rightarrow> hs)),
                                        [Settle args])
                                     else
                                       (case serveVideo P env
                                               (x402Network (network paymentConfig)) of
                                          (served, log) \<Rightarrow> (Inr served, Settle args # log)))))
             of
               (Inr answered, log) \<Rightarrow> Inr (answered, log)
             | (Inl message, log) \<Rightarrow>
                 Inr (jsonResponse (object
                        [(''error'', Some (JStr ''Payment verification error'')),
                         (''message'',
                            Some (JStr (str_or (Some message)
                                          ''Failed to verify payment. Please try again.''))),
                         (''hint'',
                            Some (JStr ''The facilitator service may be temporarily unavailable.'')),
                         (''accepts'', Some (JArr [x402Requirements paymentConfig]))]) 402 [],
                      log)))"

section \<open>The earlier handler kept in app/layout.js\<close>

text \<open>
  app/layout.js carries, after the layout component, a second \<open>GET\<close> for the same endpoint
  (line 148). It decodes the header itself and posts to the facilitator's \<open>/settle\<close>.
\<close>

definition layout_resourceUrl :: "platform \<Rightarrow> env \<Rightarrow> request \<Rightarrow> string + string" where
  "layout_resourceUrl P env request =
     (if url request \<noteq> [] then
        (case parseURL P (url request) of
           Inl message \<Rightarrow> Inl message
         | Inr requestUrlObj \<Rightarrow>
             Inr (stripTrailingSlash (origin requestUrlObj @ pathname requestUrlObj)))
      else
        Inr (stripTrailingSlash
               (str_or (env ''NEXT_PUBLIC_APP_URL'') ''http://localhost:3000'' @ ''/api/premium'')))"

text \<open>
  The requirements that the handler rebuilds for a proof (layout.js, lines 260 to 276), and the
  body it posts to the facilitator (lines 292 to 296). \<open>paymentPayload\<close> is the decoded
  header.
\<close>

definition layout_paymentRequirements :: "platform \<Rightarrow> env \<Rightarrow> json \<Rightarrow> string \<Rightarrow> json" where
  "layout_paymentRequirements P env paymentPayload resUrl =
     (let mainnet = (NETWORK env = ''base'' \<or> NETWORK env = ''base:8453'');
          usdc = USDC_ADDRESSES (if mainnet then ''base'' else ''base-sepolia'')
      in object
           [(''scheme'', Some (JStr ''exact'')),
            (''network'', getp paymentPayload ''network''),
            (''asset'', map_option JStr usdc),
            (''payTo'', Some (JStr (MERCHANT_ADDRESS env))),
            (''maxAmountRequired'', Some (JStr (number_toString P (PAYMENT_AMOUNT env)))),
            (''resource'', Some (JStr resUrl)),
            (''description'', Some (JStr ''Access to premium video content'')),
            (''mimeType'', Some (JStr ''video/mp4'')),
            (''maxTimeoutSeconds'', Some (JNum 86400)),
            (''extra'', Some (object
               [(''name'', Some (JStr ''USD Coin'')),
                (''version'', Some (JStr ''2'')),
                (''primaryType'', Some (JStr ''TransferWithAuthorization'')),
                (''recipientAddress'', Some (JStr (MERCHANT_ADDRESS env)))]))])"

definition layout_settleBody :: "json \<Rightarrow> json \<Rightarrow> json" where
  "layout_settleBody paymentPayload paymentRequirements =
     object
       [(''x402Version'', Some (js_or (getp paymentPayload ''x402Version'') (JNum 1))),
        (''paymentPayload'', Some paymentPayload),
        (''paymentRequirements'', Some paymentRequirements)]"

definition layout_GET :: "platform \<Rightarrow> env \<Rightarrow> request \<Rightarrow> string + response \<times> effect list" where
  "layout_GET P env request =
     (let xPaymentHeader = headers request ''x-payment'';
          mainnet = (NETWORK env = ''base'' \<or> NETWORK env = ''base:8453'');
          usdc = USDC_ADDRESSES (if mainnet then ''base'' else ''base-sepolia'')
      in
      if str_falsy xPaymentHeader then
        (case layout_resourceUrl P env request of
           Inl message \<Rightarrow> Inl message
         | Inr resUrl \<Rightarrow>
             let requirements = object
                   [(''scheme'', Some (JStr ''exact'')),
                    (''network'', Some (JStr (if mainnet then ''eip155:8453'' else ''eip155:84532''))),
                    (''maxAmountRequired'', Some (JStr (number_toString P (PAYMENT_AMOUNT env)))),
                    (''resource'', Some (JStr resUrl)),
                    (''description'', Some (JStr ''Access to premium video content'')),
                    (''mimeType'', Some (JStr ''video/mp4'')),
                    (''payTo'', Some (JStr (MERCHANT_ADDRESS env))),
                    (''maxTimeoutSeconds'', Some (JNum 86400)),
                    (''asset'', map_option JStr usdc)];
                 paymentRequirement = object
                   [(''scheme'', Some (JStr ''exact'')),
                    (''network'', Some (JStr (if mainnet then ''base:8453'' else ''base:84532''))),
                    (''token'', map_option JStr usdc),
                    (''recipient'', Some (JStr (MERCHANT_ADDRESS env))),
                    (''amount'', Some (JStr (number_toString P (PAYMENT_AMOUNT env)))),
                    (''displayAmount'',
                       Some (JStr (amountToFixed P (PAYMENT_AMOUNT env) 6 @ '' USDC''))),
                    (''networkName'', Some (JStr (if mainnet then ''Base'' else ''Base Sepolia''))),
                    (''description'', Some (JStr ''Access to premium video content'')),
                    (''x402Requirements'', Some requirements)]
             in Inr (jsonResponse (object
                       ([(''x402Version'', Some (JNum 1))]
                        @ spread requirements
                        @ [(''payment'', Some paymentRequirement)])) 402 [],
                     []))
      else
        (case
           (case decodePayment P (str_value xPaymentHeader) of
              Inl message \<Rightarrow> (Inl message, [])
            | Inr paymentPayload \<Rightarrow>
                if MERCHANT_ADDRESS env = []
                   \<or> MERCHANT_ADDRESS env = ''0x0000000000000000000000000000000000000000''
                then
                  (Inr (jsonResponse (object
                     [(''error'', Some (JStr ''Configuration error'')),
                      (''message'', Some (JStr ''MERCHANT_ADDRESS must be configured.''))]) 500 []),
                   [])
                else
                  (case layout_resourceUrl P env request of
                     Inl message \<Rightarrow> (Inl message, [])
                   | Inr resUrl \<Rightarrow>
                       let paymentRequirements =
                             layout_paymentRequirements P env paymentPayload resUrl;
                           facilitatorUrl =
                             str_or (env ''FACILITATOR_URL'') ''https://x402.org/facilitator'';
                           posted = layout_settleBody paymentPayload paymentRequirements;
                           call = FacilitatorPost (facilitatorUrl @ ''/settle'') posted
                       in case facilitatorSettle P (facilitatorUrl @ ''/settle'') posted of
                            Inl message \<Rightarrow> (Inl message, [call])
                          | Inr (ok, facilitatorData) \<Rightarrow>
                              if facilitatorData = JNull then
                                (Inl (if ok
                                      then ''Cannot read properties of null (reading 'success')''
                                      else ''Cannot read properties of null (reading 'errorReason')''),
                                 [call])
                              else if \<not> (ok \<and> truthy (getp facilitatorData ''success'')) then
                                (Inr (jsonResponse (object
                                   [(''x402Version'', Some (JNum 1)),
                                    (''error'',
                                       Some (js_or (getp facilitatorData ''errorReason'')
                                               (JStr ''payment_settlement_failed''))),
                                    (''errorMessage'',
                                       Some (js_or (getp facilitatorData ''errorReason'')
                                               (JStr ''Payment settlement failed. Please try again.''))),
                                    (''accepts'', Some (JArr [paymentRequirements]))]) 402 []),
                                 [call])
                              else
                                (case serveVideo P env (NETWORK env) of
                                   (served, log) \<Rightarrow> (Inr served, call # log))))
         of
           (Inr answered, log) \<Rightarrow> Inr (answered, log)
         | (Inl message, log) \<Rightarrow>
             Inr (jsonResponse (object
                    [(''error'', Some (JStr ''Payment verification error'')),
                     (''message'',
                        Some (JStr (str_or (Some message)
                                      ''Failed to verify payment. Please try again.''))),
                     (''hint'',
                        Some (JStr ''The facilitator service may be temporarily unavailable.''))])
                    402 [],
                  log)))"

section \<open>The client: the page component (unnamed/part_000)\<close>

text \<open>
  \<open>normalizeNetworkForSdk(network)\<close>: a falsy argument is returned as it is; otherwise its
  text in lower case is tested, in this order, for the two short names, for containing
  \<open>8453\<close>, and for containing \<open>84532\<close>.
\<close>

definition normalizeNetworkForSdk :: "json option \<Rightarrow> json option" where
  "normalizeNetworkForSdk networkTag =
     (case networkTag of
        None \<Rightarrow> None
      | Some n \<Rightarrow>
          if \<not> truthy (Some n) then Some n
          else
            let val = toLowerCase (js_String n) in
            if val = ''base'' \<or> val = ''base-sepolia'' then Some (JStr val)
            else if str_includes val ''8453'' then Some (JStr ''base'')
            else if str_includes val ''84532'' then Some (JStr ''base-sepolia'')
            else Some (JStr val))"

text \<open>
  The same conversion as app/page.js writes it inline (lines 325 to 329), on a network tag
  that is a string.
\<close>

definition page_convertNetwork :: "string \<Rightarrow> string" where
  "page_convertNetwork networkTag =
     (if networkTag = ''eip155:8453'' \<or> str_includes networkTag ''8453'' then ''base''
      else if networkTag = ''eip155:84532'' \<or> str_includes networkTag ''84532''
      then ''base-sepolia''
      else networkTag)"

text \<open>
  The state of the page (\<open>useState\<close>): \<open>status\<close>, \<open>paymentInfo\<close>, \<open>content\<close>, \<open>error\<close>, \<open>step\<close>;
  \<open>None\<close> is \<open>null\<close>.
\<close>

datatype ui_status = Idle | Loading | PaymentRequired | Processing | Success | Error

record client_state =
  uiStatus :: ui_status
  paymentInfo :: "json option"
  content :: "json option"
  error :: "json option"
  step :: nat

text \<open>
  A response as the page reads it: \<open>status\<close>, \<open>json()\<close> (which may reject),
  \<open>headers.get('content-type')\<close>, and the object URL made of its blob.
\<close>

record fetched =
  f_status :: nat
  f_json :: "string + json"
  f_contentType :: "string option"
  f_blobUrl :: string

definition ok :: "fetched \<Rightarrow> bool" where
  "ok response = (200 \<le> f_status response \<and> f_status response \<le> 299)"

text \<open>
  What the page calls outside the repository: the wagmi hooks as they were at render time,
  \<open>createPaymentHeader\<close> of \<open>x402/client\<close>, \<open>fetch\<close> of \<open>/api/premium\<close> (its argument is the
  \<open>X-PAYMENT\<close> header, if any), and the clock. A call that throws returns \<open>Inl\<close> of the message;
  \<open>switchChain\<close> is \<open>False\<close> when it throws.
\<close>

record browser =
  isConnected :: bool
  connectors :: nat
  chainId :: "nat option"
  switchChain :: "nat \<Rightarrow> bool"
  walletClient :: bool
  createPaymentHeader :: "json \<Rightarrow> string + string"
  fetch :: "string option \<Rightarrow> string + fetched"
  now :: string

fun chain_id :: "chain \<Rightarrow> nat" where
  "chain_id Base = 8453"
| "chain_id BaseSepolia = 84532"

fun chain_name :: "chain \<Rightarrow> string" where
  "chain_name Base = ''Base''"
| "chain_name BaseSepolia = ''Base Sepolia''"

subsection \<open>handleAccessContent\<close>

definition handleAccessContent :: "browser \<Rightarrow> client_state \<Rightarrow> client_state \<times> string option list" where
  "handleAccessContent B st0 =
     (let st = st0\<lparr>uiStatus := Loading, error := None, step := 1\<rparr>;
          tried =
            (case fetch B None of
               Inl message \<Rightarrow> Inl message
             | Inr response \<Rightarrow>
                 if f_status response = 402 then
                   (case f_json response of
                      Inl message \<Rightarrow> Inl message
                    | Inr data \<Rightarrow>
                        if data = JNull then
                          Inl ''Cannot read properties of null (reading 'payment')''
                        else
                          let pay = js_or (getp data ''payment'') (JObj []) in
                          if \<not> truthy (getp pay ''x402Requirements'') then
                            Inl ''Invalid 402 response: x402Requirements missing. This endpoint requires proper x402 payment flow.''
                          else
                            let normalizedPayment = object
                                  (spread pay
                                   @ [(''amount'',
                                         Some (JStr (case getp pay ''amount'' of
                                                       None \<Rightarrow> []
                                                     | Some a \<Rightarrow>
                                                         if truthy (Some a) then js_String a else []))),
                                      (''token'', Some (js_or (getp pay ''token'') (JStr []))),
                                      (''recipient'', Some (js_or (getp pay ''recipient'') (JStr []))),
                                      (''network'', Some (js_or (getp pay ''network'') (JStr []))),
                                      (''scheme'', Some (js_or (getp pay ''scheme'') (JStr ''exact''))),
                                      (''x402Requirements'', getp pay ''x402Requirements'')])
                            in Inr (st\<lparr>paymentInfo := Some normalizedPayment,
                                       uiStatus := PaymentRequired, step := 2\<rparr>))
                 else if ok response then
                   (case f_json response of
                      Inl message \<Rightarrow> Inl message
                    | Inr data \<Rightarrow> Inr (st\<lparr>content := Some data, uiStatus := Success, step := 5\<rparr>))
                 else Inl (''Unexpected status: '' @ string_of_nat (f_status response)))
      in (case tried of
            Inr done \<Rightarrow> done
          | Inl message \<Rightarrow> st\<lparr>error := Some (JStr message), uiStatus := Error\<rparr>,
          [None]))"

subsection \<open>handleProcessPayment\<close>

text \<open>
  The chain that the page asks the wallet for: \<open>networkString\<close> is \<open>paymentInfo.network\<close> or
  \<open>'base:84532'\<close>; a value that has no \<open>includes\<close> method throws.
\<close>

definition targetNetwork :: "json \<Rightarrow> string + chain" where
  "targetNetwork networkString =
     (case networkString of
        JStr s \<Rightarrow>
          Inr (if s = ''base:84532'' \<or> str_includes s ''84532'' \<or> s = ''base-sepolia''
               then BaseSepolia else Base)
      | JArr xs \<Rightarrow> Inr (if JStr ''84532'' \<in> set xs then BaseSepolia else Base)
      | _ \<Rightarrow> Inl ''networkString.includes is not a function'')"

text \<open>The function that the page gives to \<open>setPaymentInfo\<close> after a 402 on the retry (line 303).\<close>

definition updatePaymentInfo :: "json \<Rightarrow> json option \<Rightarrow> json option" where
  "updatePaymentInfo data prev =
     (case getp data ''accepts'' of
        Some (JArr (updatedRequirements # others)) \<Rightarrow>
          (if \<not> truthy prev then
             Some (object
               [(''amount'', Some (JStr [])),
                (''token'', Some (JStr [])),
                (''recipient'', Some (JStr [])),
                (''network'', Some (JStr [])),
                (''networkName'', Some (JStr [])),
                (''description'', Some (JStr [])),
                (''x402Requirements'', Some updatedRequirements)])
           else
             Some (object
               ((case prev of None \<Rightarrow> [] | Some p \<Rightarrow> spread p)
                @ [(''x402Requirements'', Some updatedRequirements)])))
      | _ \<Rightarrow> prev)"

text \<open>The \<open>catch\<close> of \<open>handleProcessPayment\<close>.\<close>

definition caught :: "client_state \<Rightarrow> string \<Rightarrow> client_state" where
  "caught st message =
     st\<lparr>error := Some (JStr (if message = []
                               then ''An error occurred during payment processing''
                               else message)),
        uiStatus := Error\<rparr>"

text \<open>
  The second half of \<open>handleProcessPayment\<close> (lines 267 to 335): what the page does with the
  outcome of the retry that carried the \<open>X-PAYMENT\<close> header, the \<open>catch\<close> included.
\<close>

definition afterRetry :: "browser \<Rightarrow> client_state \<Rightarrow> string + fetched \<Rightarrow> client_state" where
  "afterRetry B st3 outcome =
     (case outcome of
        Inl message \<Rightarrow> caught st3 message
      | Inr response \<Rightarrow>
          if ok response then
            (case f_contentType response of
               None \<Rightarrow> caught st3 ''Expected video response but received: null''
             | Some contentType \<Rightarrow>
                 if \<not> str_includes contentType ''video/mp4'' then
                   caught st3 (''Expected video response but received: '' @ contentType)
                 else
                   st3\<lparr>content := Some (object
                          [(''access'', Some (JStr ''granted'')),
                           (''videoUrl'', Some (JStr (f_blobUrl response))),
                           (''contentType'', Some (JStr ''video'')),
                           (''message'', Some (JStr ''Payment verified! Video access granted.'')),
                           (''timestamp'', Some (JStr (now B)))]),
                       uiStatus := Success, step := 5\<rparr>)
          else if f_status response = 402 then
            (case f_json response of
               Inl message \<Rightarrow> caught st3 message
             | Inr data \<Rightarrow>
                 if data = JNull then
                   caught st3 ''Cannot read properties of null (reading 'error')''
                 else
                   let errorReason =
                         (if truthy (getp data ''error'') then getp data ''error''
                          else getp data ''errorReason'');
                       errorMessage =
                         (if errorReason = Some (JStr ''invalid_exact_evm_payload_signature'')
                          then JStr ''Facilitator rejected the payment signature. Refresh the payment request and re-sign in your wallet.''
                          else js_or (getp data ''errorMessage'')
                                 (js_or (getp data ''message'')
                                    (JStr ''Payment verification failed'')))
                   in st3\<lparr>error := Some errorMessage,
                          paymentInfo := updatePaymentInfo data (paymentInfo st3),
                          uiStatus := Error\<rparr>)
          else
            caught st3 (''Unexpected status: '' @ string_of_nat (f_status response)))"

text \<open>
  The result is the state after the handler, and the requests it sent to \<open>/api/premium\<close>
  (each with its \<open>X-PAYMENT\<close> header).
\<close>

definition handleProcessPayment :: "browser \<Rightarrow> client_state \<Rightarrow> client_state \<times> string option list" where
  "handleProcessPayment B st0 =
     (let st1 = st0\<lparr>uiStatus := Processing, step := 3\<rparr> in
      if \<not> isConnected B \<and> connectors B = 0 then
        (caught st1
           ''No wallet connectors available. Please install MetaMask or another wallet.'', [])
      else
        (case paymentInfo st1 of
           None \<Rightarrow> (caught st1 ''Cannot read properties of null (reading 'network')'', [])
         | Some info \<Rightarrow>
             (case targetNetwork (js_or (getp info ''network'') (JStr ''base:84532'')) of
                Inl message \<Rightarrow> (caught st1 message, [])
              | Inr target \<Rightarrow>
                  let switching = (chainId B \<noteq> Some (chain_id target));
                      st2 = (if switching then st1\<lparr>uiStatus := Processing, error := None\<rparr> else st1)
                  in
                  if switching \<and> \<not> switchChain B (chain_id target) then
                    (caught st2 (''Please switch to '' @ chain_name target
                                 @ '' network in your wallet and try again.''), [])
                  else if \<not> walletClient B then
                    (caught st2
                       ''Wallet client not available. Please try connecting your wallet again.'', [])
                  else
                    let st3 = st2\<lparr>step := 4\<rparr> in
                    (case getp info ''x402Requirements'' of
                       None \<Rightarrow> (caught st3 ''Payment requirements not found in API response.'', [])
                     | Some held \<Rightarrow>
                         if \<not> truthy (Some held) then
                           (caught st3 ''Payment requirements not found in API response.'', [])
                         else
                           let paymentRequirements = object (spread held) in
                           if \<not> truthy (getp paymentRequirements ''resource'') then
                             (caught st3 ''Payment requirements missing resource field.'', [])
                           else
                             let normalizedNetworkForCreation =
                                   normalizeNetworkForSdk (getp paymentRequirements ''network'');
                                 requirementsForCreation = object
                                   (spread paymentRequirements
                                    @ [(''network'', normalizedNetworkForCreation)])
                             in
                             (case createPaymentHeader B requirementsForCreation of
                                Inl message \<Rightarrow> (caught st3 message, [])
                              | Inr paymentHeader \<Rightarrow>
                                  (afterRetry B st3 (fetch B (Some paymentHeader)),
                                   [Some paymentHeader]))))))"

text \<open>
  \<open>handleReset\<close>, and the buttons of the view that the page shows for each status. (The panel
  of technical details below the view, which reads \<open>paymentInfo.network\<close> on every render, is
  not part of this.)
\<close>

definition handleReset :: "client_state \<Rightarrow> client_state" where
  "handleReset st = \<lparr>uiStatus = Idle, paymentInfo = None, content = None, error = None, step = 0\<rparr>"

datatype action = AccessContent | ProcessPayment | Reset

definition buttons :: "client_state \<Rightarrow> action list" where
  "buttons st =
     (case uiStatus st of
        Idle \<Rightarrow> [AccessContent]
      | Loading \<Rightarrow> []
      | PaymentRequired \<Rightarrow> (if truthy (paymentInfo st) then [ProcessPayment, Reset] else [])
      | Processing \<Rightarrow> []
      | Success \<Rightarrow> (if truthy (content st) then [Reset] else [])
      | Error \<Rightarrow> [Reset])"

section \<open>Reading a handler's result\<close>

definition answer_status :: "string + response \<times> effect list \<Rightarrow> nat option" where
  "answer_status r = (case r of Inl message \<Rightarrow> None | Inr (answered, log) \<Rightarrow> Some (status answered))"

definition answer_field :: "string + response \<times> effect list \<Rightarrow> string \<Rightarrow> json option" where
  "answer_field r k =
     (case r of
        Inl message \<Rightarrow> None
      | Inr (answered, log) \<Rightarrow> (case body answered of Json j \<Rightarrow> getp j k | Buffer b \<Rightarrow> None))"

definition calls :: "string + response \<times> effect list \<Rightarrow> effect list" where
  "calls r = (case r of Inl message \<Rightarrow> [] | Inr (answered, log) \<Rightarrow> log)"

section \<open>Example inputs\<close>

text \<open>
  A development server on \<open>localhost:3000\<close>: the URL parser knows the endpoint's URL, amounts
  print as ten cents, the facilitator is unreachable, and the video file is absent.
\<close>

definition example_platform :: platform where
  "example_platform =
     \<lparr>parseURL = (\<lambda>s. if s = ''http://localhost:3000/api/premium/''
                        then Inr \<lparr>origin = ''http://localhost:3000'', pathname = ''/api/premium/''\<rparr>
                        else Inl ''Invalid URL''),
      toFixed = (\<lambda>n d. if d = 2 then ''0.10'' else ''0.100000''),
      bigToString = (\<lambda>n. ''1e+21''),
      createThirdwebClient = (\<lambda>secretKey. Inr ()),
      facilitator = (\<lambda>secretKey serverWalletAddress vaultAccessToken. Inr ()),
      settlePayment = (\<lambda>args. Inl ''fetch failed''),
      decodePayment = (\<lambda>s. Inl ''Invalid payment''),
      facilitatorSettle = (\<lambda>u b. Inl ''fetch failed''),
      existsSync = (\<lambda>p. False),
      readFileSync = (\<lambda>p. Inl ''ENOENT''),
      statSync = (\<lambda>p. Inl ''ENOENT''),
      path_isAbsolute = (\<lambda>p. startsWith p ''/''),
      path_join = (\<lambda>a b. a @ ''/'' @ b),
      cwd = ''/srv/app''\<rparr>"

definition example_env :: env where
  "example_env =
     [''MERCHANT_ADDRESS'' \<mapsto> ''0x1111111111111111111111111111111111111111'',
      ''THIRDWEB_SECRET_KEY'' \<mapsto> ''sk_test'',
      ''THIRDWEB_VAULT_ACCESS_TOKEN'' \<mapsto> ''vt_test'']"

text \<open>The same deployment before the vault access token was set.\<close>

definition example_env_no_vault :: env where
  "example_env_no_vault =
     [''MERCHANT_ADDRESS'' \<mapsto> ''0x1111111111111111111111111111111111111111'',
      ''THIRDWEB_SECRET_KEY'' \<mapsto> ''sk_test'']"

text \<open>The same deployment with a price that is not a number.\<close>

definition example_env_bad_amount :: env where
  "example_env_bad_amount =
     [''MERCHANT_ADDRESS'' \<mapsto> ''0x1111111111111111111111111111111111111111'',
      ''THIRDWEB_SECRET_KEY'' \<mapsto> ''sk_test'',
      ''THIRDWEB_VAULT_ACCESS_TOKEN'' \<mapsto> ''vt_test'',
      ''PAYMENT_AMOUNT'' \<mapsto> ''ten cents'']"

text \<open>The same deployment with the price written in dollars.\<close>

definition example_env_decimal_amount :: env where
  "example_env_decimal_amount =
     [''MERCHANT_ADDRESS'' \<mapsto> ''0x1111111111111111111111111111111111111111'',
      ''THIRDWEB_SECRET_KEY'' \<mapsto> ''sk_test'',
      ''THIRDWEB_VAULT_ACCESS_TOKEN'' \<mapsto> ''vt_test'',
      ''PAYMENT_AMOUNT'' \<mapsto> ''0.10'']"

text \<open>A client constructor that refuses the secret key.\<close>

definition example_refusing_platform :: platform where
  "example_refusing_platform =
     example_platform
       \<lparr>createThirdwebClient := (\<lambda>secretKey. Inl ''Invalid secret key'')\<rparr>"

text \<open>A facilitator that settles every proof, the video file still absent.\<close>

definition example_settling_platform :: platform where
  "example_settling_platform =
     example_platform
       \<lparr>settlePayment := (\<lambda>args. Inr \<lparr>result_status = 200, result_responseBody = None,
                                        result_responseHeaders = None\<rparr>)\<rparr>"

text \<open>
  A proof signed for Base Sepolia, presented to a server configured for Base mainnet
  (\<open>NEXT_PUBLIC_NETWORK\<close> unset), with the decoder of \<open>x402/schemes\<close> and a facilitator that
  accepts.
\<close>

definition example_payload :: json where
  "example_payload =
     JObj [(''x402Version'', JNum 1),
           (''scheme'', JStr ''exact''),
           (''network'', JStr ''base-sepolia''),
           (''payload'', JObj [(''signature'', JStr ''0xabcdef'')])]"

definition example_decoding_platform :: platform where
  "example_decoding_platform =
     example_platform
       \<lparr>decodePayment := (\<lambda>s. if s = ''eyJ4NDAyIjoxfQ=='' then Inr example_payload
                               else Inl ''Invalid payment''),
        facilitatorSettle := (\<lambda>u b. Inr (True, JObj [(''success'', JBool True)]))\<rparr>"

text \<open>
  The page after a challenge, with a connected wallet on Base; the server answers the retry
  with \<open>500\<close>, or with a 402 that carries refreshed requirements.
\<close>

definition example_state :: client_state where
  "example_state =
     \<lparr>uiStatus = PaymentRequired,
      paymentInfo = Some (JObj
        [(''network'', JStr ''base:8453''),
         (''amount'', JStr ''100000''),
         (''x402Requirements'', JObj
            [(''network'', JStr ''base''),
             (''maxAmountRequired'', JStr ''100000''),
             (''resource'', JStr ''http://localhost:3000/api/premium'')])]),
      content = None, error = None, step = 2\<rparr>"

definition example_browser :: browser where
  "example_browser =
     \<lparr>isConnected = True, connectors = 1, chainId = Some 8453,
      switchChain = (\<lambda>c. True), walletClient = True,
      createPaymentHeader = (\<lambda>requirements. Inr ''eyJ4NDAyIjoxfQ==''),
      fetch = (\<lambda>header. Inr \<lparr>f_status = 500,
                                f_json = Inr (JObj [(''error'', JStr ''Video file not found'')]),
                                f_contentType = Some ''application/json'',
                                f_blobUrl = ''blob:1''\<rparr>),
      now = ''2025-01-01T00:00:00.000Z''\<rparr>"

definition example_refreshed :: json where
  "example_refreshed =
     JObj [(''network'', JStr ''base''),
           (''maxAmountRequired'', JStr ''200000''),
           (''resource'', JStr ''http://localhost:3000/api/premium'')]"

definition example_browser_402 :: browser where
  "example_browser_402 =
     example_browser
       \<lparr>fetch := (\<lambda>header. Inr \<lparr>f_status = 402,
                                 f_json = Inr (JObj [(''error'', JStr ''Payment verification error''),
                                                     (''accepts'', JArr [example_refreshed])]),
                                 f_contentType = Some ''application/json'',
                                 f_blobUrl = ''blob:1''\<rparr>)\<rparr>"

definition example_request :: request where
  "example_request = \<lparr>url = ''http://localhost:3000/api/premium/'', headers = Map.empty\<rparr>"

definition example_paid_request :: request where
  "example_paid_request =
     \<lparr>url = ''http://localhost:3000/api/premium/'', headers = [''x-payment'' \<mapsto> ''eyJ4NDAyIjoxfQ=='']\<rparr>"

section \<open>Properties\<close>

lemma startsWith_iff: "startsWith s t \<longleftrightarrow> (\<exists>q. s = t @ q)"
  by (induction s t rule: startsWith.induct) auto

lemma usdc_cases:
  "USDC_ADDRESSES (if m then ''base'' else ''base-sepolia'') =
     Some (if m then ''0x833589fCD6eDb6E08f4c7C32D4f71b54bdA02913''
           else ''0x036CbD53842c5426634e7929541eC2318f3dCF7e'')"
  by (simp add: USDC_ADDRESSES_def)

subsection \<open>The challenge\<close>

lemma GET_no_header:
  assumes "str_falsy (headers request ''x-payment'')"
  shows "GET P env request =
     (case buildPaymentConfig P env request of
        Inl message \<Rightarrow> Inl message
      | Inr cfg \<Rightarrow>
          Inr (jsonResponse (object
                 ([(''x402Version'', Some (JNum 1))] @ spread (x402Requirements cfg)
                  @ [(''accepts'', Some (JArr [x402Requirements cfg])),
                     (''payment'', Some (payment cfg))])) 402 [], []))"
  using assms by (simp add: GET_def split: sum.splits)





lemma buildPaymentConfig_parses:
  assumes "parseURL P (url request) = Inr u"
  shows "\<exists>cfg. buildPaymentConfig P env request = Inr cfg"
  using assms by (simp add: buildPaymentConfig_def buildResourceUrl_def Let_def)

subsection \<open>Missing configuration\<close>

text \<open>
  C2, as the code has it. The configuration is looked at only after the header. A request with
  an \<open>X-PAYMENT\<close> header is answered 500 with the error "Server configuration error", and no
  call to the facilitator is made, when \<open>THIRDWEB_SECRET_KEY\<close> is unset or empty, and also when
  \<open>THIRDWEB_VAULT_ACCESS_TOKEN\<close> is unset or empty and \<open>createThirdwebClient\<close>, which runs
  between the two tests, has accepted the secret key.
\<close>

theorem C2_missing_credential:
  assumes "headers request ''x-payment'' = Some h" and "h \<noteq> []"
      and "parseURL P (url request) = Inr u"
      and "str_falsy (env ''THIRDWEB_SECRET_KEY'')
           \<or> (createThirdwebClient P (str_value (env ''THIRDWEB_SECRET_KEY'')) = Inr ()
              \<and> str_falsy (env ''THIRDWEB_VAULT_ACCESS_TOKEN''))"
  shows "\<exists>b. GET P env request = Inr (\<lparr>status = 500, responseHeaders = [], body = Json b\<rparr>, [])
           \<and> getp b ''error'' = Some (JStr ''Server configuration error'')"
proof -
  obtain cfg where cfg: "buildPaymentConfig P env request = Inr cfg"
    using buildPaymentConfig_parses [OF assms(3)] by blast
  have hdr: "\<not> str_falsy (headers request ''x-payment'')"
    using assms(1,2) by (simp add: str_falsy_def)
  show ?thesis
  proof (cases "str_falsy (env ''THIRDWEB_SECRET_KEY'')")
    case True
    then show ?thesis
      using cfg hdr by (simp add: GET_def jsonResponse_def object_def)
  next
    case False
    with assms(4) have "createThirdwebClient P (str_value (env ''THIRDWEB_SECRET_KEY'')) = Inr ()"
      and "str_falsy (env ''THIRDWEB_VAULT_ACCESS_TOKEN'')"
      by simp_all
    with False show ?thesis
      using cfg hdr by (simp add: GET_def jsonResponse_def object_def)
  qed
qed

text \<open>
  When \<open>createThirdwebClient\<close> throws on the secret key, the outer \<open>catch\<close> answers 402
  "Payment verification error" with the thrown message, whether the vault access token is set
  or not, and nothing has been called.
\<close>

lemma GET_client_constructor_throws:
  assumes "headers request ''x-payment'' = Some h" and "h \<noteq> []"
      and "buildPaymentConfig P env request = Inr cfg"
      and "env ''THIRDWEB_SECRET_KEY'' = Some sk" and "sk \<noteq> []"
      and "createThirdwebClient P sk = Inl message"
  shows "GET P env request =
           Inr (\<lparr>status = 402, responseHeaders = [],
                 body = Json (JObj
                   [(''error'', JStr ''Payment verification error''),
                    (''message'', JStr (if message = []
                                       then ''Failed to verify payment. Please try again.''
                                       else message)),
                    (''hint'', JStr ''The facilitator service may be temporarily unavailable.''),
                    (''accepts'', JArr [x402Requirements cfg])])\<rparr>,
                [])"
  using assms
  by (simp add: GET_def str_falsy_def str_value_def str_or_def object_def jsonResponse_def)

text \<open>
  An instance: the secret key is set, the vault access token is not, and the constructor
  refuses the key. The missing token is then never looked at.
\<close>

lemma example_client_constructor_throws:
  "example_env_no_vault ''THIRDWEB_SECRET_KEY'' = Some ''sk_test''
   \<and> str_falsy (example_env_no_vault ''THIRDWEB_VAULT_ACCESS_TOKEN'')
   \<and> createThirdwebClient example_refusing_platform ''sk_test'' = Inl ''Invalid secret key''
   \<and> answer_status (GET example_refusing_platform example_env_no_vault example_paid_request)
       = Some 402
   \<and> answer_field (GET example_refusing_platform example_env_no_vault example_paid_request)
        ''error'' = Some (JStr ''Payment verification error'')
   \<and> calls (GET example_refusing_platform example_env_no_vault example_paid_request) = []"
proof -
  have h1: "headers example_paid_request ''x-payment'' = Some ''eyJ4NDAyIjoxfQ==''"
    by (simp add: example_paid_request_def)
  have h2: "''eyJ4NDAyIjoxfQ=='' \<noteq> []"
    by simp
  have "parseURL example_refusing_platform (url example_paid_request)
      = Inr \<lparr>origin = ''http://localhost:3000'', pathname = ''/api/premium/''\<rparr>"
    by (simp add: example_paid_request_def example_refusing_platform_def example_platform_def)
  from buildPaymentConfig_parses [OF this]
  obtain cfg where cfg: "buildPaymentConfig example_refusing_platform example_env_no_vault
      example_paid_request = Inr cfg"
    by blast
  have h4: "example_env_no_vault ''THIRDWEB_SECRET_KEY'' = Some ''sk_test''"
    by (simp add: example_env_no_vault_def)
  have h5: "''sk_test'' \<noteq> []"
    by simp
  have h6: "createThirdwebClient example_refusing_platform ''sk_test'' = Inl ''Invalid secret key''"
    by (simp add: example_refusing_platform_def)
  have h7: "str_falsy (example_env_no_vault ''THIRDWEB_VAULT_ACCESS_TOKEN'')"
    by (simp add: str_falsy_def example_env_no_vault_def)
  show ?thesis
    using h4 h6 h7
    by (simp add: GET_client_constructor_throws [OF h1 h2 cfg h4 h5 h6]
        answer_status_def answer_field_def calls_def)
qed

lemma GET_no_header_status:
  assumes "str_falsy (headers request ''x-payment'')" and "parseURL P (url request) = Inr u"
  shows "answer_status (GET P env request) = Some 402"
proof -
  obtain cfg where "buildPaymentConfig P env request = Inr cfg"
    using buildPaymentConfig_parses [OF assms(2)] by blast
  then show ?thesis
    by (simp add: GET_no_header [OF assms(1)] answer_status_def jsonResponse_def)
qed

text \<open>
  With nothing configured at all (no merchant address, no credentials), a request without the
  header is still answered with the 402 challenge.
\<close>

theorem C2_counterexample:
  "Map.empty ''MERCHANT_ADDRESS'' = (None :: string option)
   \<and> Map.empty ''THIRDWEB_SECRET_KEY'' = (None :: string option)
   \<and> Map.empty ''THIRDWEB_VAULT_ACCESS_TOKEN'' = (None :: string option)
   \<and> answer_status (GET example_platform Map.empty example_request) = Some 402"
proof -
  have "str_falsy (headers example_request ''x-payment'')"
    by (simp add: example_request_def str_falsy_def)
  moreover have "parseURL example_platform (url example_request)
      = Inr \<lparr>origin = ''http://localhost:3000'', pathname = ''/api/premium/''\<rparr>"
    by (simp add: example_request_def example_platform_def)
  ultimately show ?thesis
    by (simp add: GET_no_header_status)
qed

theorem C2_missing_credential_witness:
  "headers example_paid_request ''x-payment'' = Some ''eyJ4NDAyIjoxfQ==''
   \<and> createThirdwebClient example_platform ''sk_test'' = Inr ()
   \<and> str_falsy (example_env_no_vault ''THIRDWEB_VAULT_ACCESS_TOKEN'')
   \<and> answer_status (GET example_platform example_env_no_vault example_paid_request) = Some 500
   \<and> calls (GET example_platform example_env_no_vault example_paid_request) = []"
proof -
  have h1: "headers example_paid_request ''x-payment'' = Some ''eyJ4NDAyIjoxfQ==''"
    by (simp add: example_paid_request_def)
  have h2: "''eyJ4NDAyIjoxfQ=='' \<noteq> []"
    by simp
  have h3: "parseURL example_platform (url example_paid_request)
      = Inr \<lparr>origin = ''http://localhost:3000'', pathname = ''/api/premium/''\<rparr>"
    by (simp add: example_paid_request_def example_platform_def)
  have h4: "str_falsy (example_env_no_vault ''THIRDWEB_VAULT_ACCESS_TOKEN'')"
    by (simp add: str_falsy_def example_env_no_vault_def)
  have "createThirdwebClient example_platform
      (str_value (example_env_no_vault ''THIRDWEB_SECRET_KEY'')) = Inr ()"
    by (simp add: example_platform_def)
  with h4 have h5: "str_falsy (example_env_no_vault ''THIRDWEB_SECRET_KEY'')
      \<or> (createThirdwebClient example_platform
            (str_value (example_env_no_vault ''THIRDWEB_SECRET_KEY'')) = Inr ()
          \<and> str_falsy (example_env_no_vault ''THIRDWEB_VAULT_ACCESS_TOKEN''))"
    by blast
  from C2_missing_credential [OF h1 h2 h3 h5]
  obtain b where "GET example_platform example_env_no_vault example_paid_request
      = Inr (\<lparr>status = 500, responseHeaders = [], body = Json b\<rparr>, [])"
    by blast
  moreover have "createThirdwebClient example_platform ''sk_test'' = Inr ()"
    by (simp add: example_platform_def)
  ultimately show ?thesis
    using h1 h4 by (simp add: answer_status_def calls_def)
qed

subsection \<open>A request with a proof\<close>

lemma GET_paid:
  assumes "headers request ''x-payment'' = Some h" and "h \<noteq> []"
      and "buildPaymentConfig P env request = Inr cfg"
      and "env ''THIRDWEB_SECRET_KEY'' = Some sk" and "sk \<noteq> []"
      and "env ''THIRDWEB_VAULT_ACCESS_TOKEN'' = Some vt" and "vt \<noteq> []"
      and "createThirdwebClient P sk = Inr ()"
      and "facilitator P sk (SERVER_WALLET_ADDRESS env) vt = Inr ()"
  shows "GET P env request =
     (case settlePayment P (settlementArgs P env cfg h sk vt) of
        Inl message \<Rightarrow>
          Inr (jsonResponse (JObj
                 [(''error'', JStr ''Payment verification error''),
                  (''message'', JStr (if message = []
                                     then ''Failed to verify payment. Please try again.''
                                     else message)),
                  (''hint'', JStr ''The facilitator service may be temporarily unavailable.''),
                  (''accepts'', JArr [x402Requirements cfg])]) 402 [],
               [Settle (settlementArgs P env cfg h sk vt)])
      | Inr result \<Rightarrow>
          if result_status result \<noteq> 200 then
            Inr (jsonResponse
                   (js_or (result_responseBody result)
                      (JObj [(''error'', JStr ''Payment verification failed'')]))
                   (result_status result)
                   (case result_responseHeaders result of None \<Rightarrow> [] | Some hs \<Rightarrow> hs),
                 [Settle (settlementArgs P env cfg h sk vt)])
          else
            Inr (fst (serveVideo P env (x402Network (network cfg))),
                 Settle (settlementArgs P env cfg h sk vt)
                 # snd (serveVideo P env (x402Network (network cfg)))))"
  using assms
  by (simp add: GET_def str_falsy_def str_value_def str_or_def object_def Let_def
      split: sum.splits prod.splits)

text \<open>
  C3, as the code has it. When the call to the facilitator is reached (the credentials are set
  and the two constructors have returned) and \<open>settlePayment\<close> throws (a timeout, a network
  failure, or any other error), the answer is 402 with the fixed error text "Payment
  verification error", the thrown error's message (a default text when it is empty), the hint
  that the facilitator may be temporarily unavailable, and \<open>accepts = [requirements]\<close>. The
  error text is the same for every thrown error.
\<close>

theorem C3_settlement_throws:
  assumes "headers request ''x-payment'' = Some h" and "h \<noteq> []"
      and "buildPaymentConfig P env request = Inr cfg"
      and "env ''THIRDWEB_SECRET_KEY'' = Some sk" and "sk \<noteq> []"
      and "env ''THIRDWEB_VAULT_ACCESS_TOKEN'' = Some vt" and "vt \<noteq> []"
      and "createThirdwebClient P sk = Inr ()"
      and "facilitator P sk (SERVER_WALLET_ADDRESS env) vt = Inr ()"
      and "settlePayment P (settlementArgs P env cfg h sk vt) = Inl message"
  shows "GET P env request =
           Inr (\<lparr>status = 402, responseHeaders = [],
                 body = Json (JObj
                   [(''error'', JStr ''Payment verification error''),
                    (''message'', JStr (if message = []
                                       then ''Failed to verify payment. Please try again.''
                                       else message)),
                    (''hint'', JStr ''The facilitator service may be temporarily unavailable.''),
                    (''accepts'', JArr [x402Requirements cfg])])\<rparr>,
                [Settle (settlementArgs P env cfg h sk vt)])"
  using assms(10) by (simp add: GET_paid [OF assms(1-9)] jsonResponse_def)

lemma example_paid_facts:
  "headers example_paid_request ''x-payment'' = Some ''eyJ4NDAyIjoxfQ==''"
  "''eyJ4NDAyIjoxfQ=='' \<noteq> []"
  "parseURL P (url example_paid_request) = parseURL P ''http://localhost:3000/api/premium/''"
  "example_env ''THIRDWEB_SECRET_KEY'' = Some ''sk_test''" "''sk_test'' \<noteq> []"
  "example_env ''THIRDWEB_VAULT_ACCESS_TOKEN'' = Some ''vt_test''" "''vt_test'' \<noteq> []"
  by (simp_all add: example_paid_request_def example_env_def)

lemma example_constructors:
  "createThirdwebClient example_platform sk = Inr ()"
  "facilitator example_platform sk wallet vt = Inr ()"
  "createThirdwebClient example_settling_platform sk = Inr ()"
  "facilitator example_settling_platform sk wallet vt = Inr ()"
  by (simp_all add: example_platform_def example_settling_platform_def)

lemma example_paid_config:
  "\<exists>cfg. buildPaymentConfig example_platform env example_paid_request = Inr cfg"
  by (rule buildPaymentConfig_parses [where u = "\<lparr>origin = ''http://localhost:3000'',
      pathname = ''/api/premium/''\<rparr>"]) (simp add: example_paid_request_def example_platform_def)

theorem C3_settlement_throws_witness:
  "headers example_paid_request ''x-payment'' = Some ''eyJ4NDAyIjoxfQ==''
   \<and> settlePayment example_platform = (\<lambda>args. Inl ''fetch failed'')
   \<and> answer_status (GET example_platform example_env example_paid_request) = Some 402
   \<and> answer_field (GET example_platform example_env example_paid_request) ''error''
       = Some (JStr ''Payment verification error'')
   \<and> answer_field (GET example_platform example_env example_paid_request) ''message''
       = Some (JStr ''fetch failed'')"
proof -
  obtain cfg where cfg: "buildPaymentConfig example_platform example_env example_paid_request = Inr cfg"
    using example_paid_config by blast
  have throws: "settlePayment example_platform = (\<lambda>args. Inl ''fetch failed'')"
    by (simp add: example_platform_def)
  then have "settlePayment example_platform
      (settlementArgs example_platform example_env cfg ''eyJ4NDAyIjoxfQ=='' ''sk_test'' ''vt_test'')
      = Inl ''fetch failed''"
    by simp
  from C3_settlement_throws [OF example_paid_facts(1,2) cfg example_paid_facts(4-7)
      example_constructors(1,2) this]
    example_paid_facts(1) throws
  show ?thesis
    by (simp add: answer_status_def answer_field_def)
qed

text \<open>
  The facilitator cannot be reached (\<open>settlePayment\<close> throws "fetch failed"): the error of the
  402 is "Payment verification error"; no code \<open>verification_unavailable\<close> is sent.
\<close>

theorem C3_counterexample:
  "answer_status (GET example_platform example_env example_paid_request) = Some 402
   \<and> answer_field (GET example_platform example_env example_paid_request) ''error''
       = Some (JStr ''Payment verification error'')
   \<and> answer_field (GET example_platform example_env example_paid_request) ''error''
       \<noteq> Some (JStr ''verification_unavailable'')"
proof -
  obtain cfg where cfg: "buildPaymentConfig example_platform example_env example_paid_request = Inr cfg"
    using example_paid_config by blast
  have "settlePayment example_platform
      (settlementArgs example_platform example_env cfg ''eyJ4NDAyIjoxfQ=='' ''sk_test'' ''vt_test'')
      = Inl ''fetch failed''"
    by (simp add: example_platform_def)
  then show ?thesis
    by (simp add: GET_paid [OF example_paid_facts(1,2) cfg example_paid_facts(4-7)
          example_constructors(1,2)]
        answer_status_def answer_field_def jsonResponse_def)
qed

subsection \<open>Settlement and the video file\<close>

text \<open>
  C9. With a proof that the facilitator settles (status 200; the credentials are set and the
  two constructors have returned), \<open>settlePayment\<close> is called first, with the header as \<open>paymentData\<close>, and only then is the video file looked for. When
  the file does not exist, or reading or measuring it throws, the answer is 500, after the
  settlement call.
\<close>

theorem C9_settlement_before_file_check:
  assumes "headers request ''x-payment'' = Some h" and "h \<noteq> []"
      and "buildPaymentConfig P env request = Inr cfg"
      and "env ''THIRDWEB_SECRET_KEY'' = Some sk" and "sk \<noteq> []"
      and "env ''THIRDWEB_VAULT_ACCESS_TOKEN'' = Some vt" and "vt \<noteq> []"
      and "createThirdwebClient P sk = Inr ()"
      and "facilitator P sk (SERVER_WALLET_ADDRESS env) vt = Inr ()"
      and "settlePayment P (settlementArgs P env cfg h sk vt) = Inr result"
      and "result_status result = 200"
      and "\<not> existsSync P (videoAbsolutePath P env)
           \<or> readFileSync P (videoAbsolutePath P env) = Inl m
           \<or> statSync P (videoAbsolutePath P env) = Inl m"
  shows "\<exists>b rest.
           GET P env request =
             Inr (\<lparr>status = 500, responseHeaders = [], body = Json b\<rparr>,
                  Settle (settlementArgs P env cfg h sk vt)
                  # ExistsSync (videoAbsolutePath P env) # rest)
         \<and> arg_paymentData (settlementArgs P env cfg h sk vt) = h"
proof -
  have video: "\<exists>b rest. serveVideo P env n
      = (\<lparr>status = 500, responseHeaders = [], body = Json b\<rparr>,
         ExistsSync (videoAbsolutePath P env) # rest)" for n
    using assms(12)
    by (auto simp add: serveVideo_def Let_def jsonResponse_def split: sum.splits)
  then obtain b rest where "serveVideo P env (x402Network (network cfg))
      = (\<lparr>status = 500, responseHeaders = [], body = Json b\<rparr>,
         ExistsSync (videoAbsolutePath P env) # rest)"
    by blast
  then show ?thesis
    using assms(10,11)
    by (simp add: GET_paid [OF assms(1-9)] settlementArgs_def Let_def)
qed

theorem C9_settlement_before_file_check_witness:
  "headers example_paid_request ''x-payment'' = Some ''eyJ4NDAyIjoxfQ==''
   \<and> \<not> existsSync example_settling_platform (videoAbsolutePath example_settling_platform example_env)
   \<and> answer_status (GET example_settling_platform example_env example_paid_request) = Some 500
   \<and> (\<exists>args rest. calls (GET example_settling_platform example_env example_paid_request)
         = Settle args # ExistsSync ''/srv/app/resources /ssstik.io_@wilcoxxspace_1761512614937.mp4'' # rest
         \<and> arg_paymentData args = ''eyJ4NDAyIjoxfQ=='')"
proof -
  let ?P = example_settling_platform
  let ?r = "\<lparr>result_status = 200, result_responseBody = None, result_responseHeaders = None\<rparr>"
  have "\<exists>cfg. buildPaymentConfig ?P example_env example_paid_request = Inr cfg"
    by (rule buildPaymentConfig_parses [where u = "\<lparr>origin = ''http://localhost:3000'',
      pathname = ''/api/premium/''\<rparr>"])
      (simp add: example_paid_request_def example_settling_platform_def example_platform_def)
  then obtain cfg where cfg: "buildPaymentConfig ?P example_env example_paid_request = Inr cfg"
    by blast
  have settles: "settlePayment ?P
      (settlementArgs ?P example_env cfg ''eyJ4NDAyIjoxfQ=='' ''sk_test'' ''vt_test'') = Inr ?r"
    by (simp add: example_settling_platform_def)
  have ok: "result_status ?r = 200"
    by simp
  have path: "videoAbsolutePath ?P example_env
      = ''/srv/app/resources /ssstik.io_@wilcoxxspace_1761512614937.mp4''"
    by (simp add: videoAbsolutePath_def videoRelativePath_def example_settling_platform_def
        example_platform_def example_env_def str_or_def)
  have absent: "\<not> existsSync ?P (videoAbsolutePath ?P example_env)"
    by (simp add: example_settling_platform_def example_platform_def)
  then have missing: "\<not> existsSync ?P (videoAbsolutePath ?P example_env)
      \<or> readFileSync ?P (videoAbsolutePath ?P example_env) = Inl ''ENOENT''
      \<or> statSync ?P (videoAbsolutePath ?P example_env) = Inl ''ENOENT''"
    by blast
  from C9_settlement_before_file_check
    [OF example_paid_facts(1,2) cfg example_paid_facts(4-7) example_constructors(3,4)
      settles ok missing]
  obtain b rest where "GET ?P example_env example_paid_request =
      Inr (\<lparr>status = 500, responseHeaders = [], body = Json b\<rparr>,
           Settle (settlementArgs ?P example_env cfg ''eyJ4NDAyIjoxfQ=='' ''sk_test'' ''vt_test'')
           # ExistsSync (videoAbsolutePath ?P example_env) # rest)"
    and "arg_paymentData (settlementArgs ?P example_env cfg ''eyJ4NDAyIjoxfQ=='' ''sk_test'' ''vt_test'')
      = ''eyJ4NDAyIjoxfQ==''"
    by blast
  with example_paid_facts(1) absent path show ?thesis
    by (simp add: answer_status_def calls_def)
qed

subsection \<open>A price that is not a number\<close>

lemma parseInt_examples:
  "parseInt ''100000'' = Num 100000"
  "parseInt ''12abc'' = Num 12"
  "parseInt '' -0x1F;'' = Num (- 31)"
  "parseInt ''ten cents'' = NaN"
  "parseInt ''0.10'' = Num 0"
  "parseInt (CHR 0xA0 # ''250000'') = Num 250000"
  "parseInt [] = NaN"
  by (simp_all add: parseInt_def isWhiteSpace_def digitValue_def lower_char_def Let_def)

lemma number_toString_NaN: "number_toString P NaN = ''NaN''"
  by (simp add: number_toString_def)

lemma number_toString_examples:
  "number_toString P (Num 0) = ''0''"
  "number_toString P (Num 12) = ''12''"
  "number_toString P (Num 100000) = ''100000''"
  "number_toString P (Num 250000) = ''250000''"
  by (simp_all add: number_toString_def string_of_int_def string_of_nat.simps)

lemma default_amount:
  "str_falsy (env ''PAYMENT_AMOUNT'') \<Longrightarrow> number_toString P (PAYMENT_AMOUNT env) = ''100000''"
  by (simp add: PAYMENT_AMOUNT_def str_or_def str_falsy_def parseInt_examples
      number_toString_examples split: option.splits)

text \<open>
  The price that a challenge carries is the text of \<open>PAYMENT_AMOUNT\<close>, whatever the variable
  holds.
\<close>

lemma GET_challenge_amount:
  assumes "headers request ''x-payment'' = None"
      and "parseURL P (url request) = Inr u"
  shows "answer_status (GET P env request) = Some 402"
    and "answer_field (GET P env request) ''maxAmountRequired''
           = Some (JStr (number_toString P (PAYMENT_AMOUNT env)))"
proof -
  have nohdr: "str_falsy (headers request ''x-payment'')"
    using assms(1) by (simp add: str_falsy_def)
  have "\<exists>r. buildResourceUrl P env request = Inr r"
    using assms(2) by (simp add: buildResourceUrl_def)
  then obtain r where r: "buildResourceUrl P env request = Inr r"
    by blast
  show "answer_status (GET P env request) = Some 402"
    by (simp add: GET_no_header [OF nohdr] buildPaymentConfig_def r Let_def
        answer_status_def jsonResponse_def)
  show "answer_field (GET P env request) ''maxAmountRequired''
           = Some (JStr (number_toString P (PAYMENT_AMOUNT env)))"
    by (simp add: GET_no_header [OF nohdr] buildPaymentConfig_def r Let_def
        answer_field_def jsonResponse_def object_def spread_def
        usdc_cases resolveNetworkConfig_def)
qed

text \<open>
  C10, as the code has it. When \<open>PAYMENT_AMOUNT\<close> is set to a non-empty string on which
  \<open>parseInt\<close> gives \<open>NaN\<close> (no digit follows the leading white space, the sign and the \<open>0x\<close>
  prefix), the challenge is still issued with status 402 (not a 500 configuration error),
  and it carries \<open>maxAmountRequired = "NaN"\<close>, at the root and in \<open>accepts[0]\<close>, with
  \<open>payment.amount = "NaN"\<close> and \<open>payment.displayAmount = "NaN USDC"\<close>. (The empty string is
  replaced by the default \<open>100000\<close> before \<open>parseInt\<close> sees it.)
\<close>

theorem C10_NaN_amount:
  assumes "env ''PAYMENT_AMOUNT'' = Some s" and "s \<noteq> []" and "parseInt s = NaN"
      and "headers request ''x-payment'' = None"
      and "parseURL P (url request) = Inr u"
  shows "\<exists>requirements pay.
           answer_status (GET P env request) = Some 402
         \<and> answer_field (GET P env request) ''maxAmountRequired'' = Some (JStr ''NaN'')
         \<and> answer_field (GET P env request) ''accepts'' = Some (JArr [requirements])
         \<and> getp requirements ''maxAmountRequired'' = Some (JStr ''NaN'')
         \<and> answer_field (GET P env request) ''payment'' = Some pay
         \<and> getp pay ''amount'' = Some (JStr ''NaN'')
         \<and> getp pay ''displayAmount'' = Some (JStr ''NaN USDC'')"
proof -
  have amount: "PAYMENT_AMOUNT env = NaN"
    using assms(1-3) by (simp add: PAYMENT_AMOUNT_def str_or_def)
  have nohdr: "str_falsy (headers request ''x-payment'')"
    using assms(4) by (simp add: str_falsy_def)
  have "\<exists>r. buildResourceUrl P env request = Inr r"
    using assms(5) by (simp add: buildResourceUrl_def)
  then obtain r where r: "buildResourceUrl P env request = Inr r"
    by blast
  show ?thesis
    by (simp add: GET_no_header [OF nohdr] buildPaymentConfig_def r amount Let_def
        answer_status_def answer_field_def jsonResponse_def object_def spread_def
        amountToFixed_def number_toString_NaN usdc_cases resolveNetworkConfig_def)
qed

theorem C10_NaN_amount_witness:
  "example_env_bad_amount ''PAYMENT_AMOUNT'' = Some ''ten cents''
   \<and> parseInt ''ten cents'' = NaN
   \<and> answer_status (GET example_platform example_env_bad_amount example_request) = Some 402
   \<and> answer_field (GET example_platform example_env_bad_amount example_request)
        ''maxAmountRequired'' = Some (JStr ''NaN'')"
proof -
  have h1: "example_env_bad_amount ''PAYMENT_AMOUNT'' = Some ''ten cents''"
    by (simp add: example_env_bad_amount_def)
  have h2: "''ten cents'' \<noteq> []"
    by simp
  have h4: "headers example_request ''x-payment'' = None"
    by (simp add: example_request_def)
  have h5: "parseURL example_platform (url example_request)
      = Inr \<lparr>origin = ''http://localhost:3000'', pathname = ''/api/premium/''\<rparr>"
    by (simp add: example_request_def example_platform_def)
  from C10_NaN_amount [where env = example_env_bad_amount and s = "''ten cents''"
      and request = example_request and P = example_platform, OF h1 h2 parseInt_examples(4) h4 h5]
    h1 parseInt_examples(4)
  show ?thesis
    by blast
qed

text \<open>
  C10 as the specification words it fails on a value that is no integer and yet has a leading
  integer: with \<open>PAYMENT_AMOUNT = "0.10"\<close>, \<open>parseInt\<close> gives 0, not \<open>NaN\<close>, and the challenge
  carries \<open>maxAmountRequired = "0"\<close>.
\<close>

theorem C10_counterexample:
  "example_env_decimal_amount ''PAYMENT_AMOUNT'' = Some ''0.10''
   \<and> PAYMENT_AMOUNT example_env_decimal_amount = Num 0
   \<and> answer_status (GET example_platform example_env_decimal_amount example_request) = Some 402
   \<and> answer_field (GET example_platform example_env_decimal_amount example_request)
        ''maxAmountRequired'' = Some (JStr ''0'')
   \<and> answer_field (GET example_platform example_env_decimal_amount example_request)
        ''maxAmountRequired'' \<noteq> Some (JStr ''NaN'')"
proof -
  have h1: "example_env_decimal_amount ''PAYMENT_AMOUNT'' = Some ''0.10''"
    by (simp add: example_env_decimal_amount_def)
  have amount: "PAYMENT_AMOUNT example_env_decimal_amount = Num 0"
    by (simp add: PAYMENT_AMOUNT_def h1 str_or_def parseInt_examples)
  have h4: "headers example_request ''x-payment'' = None"
    by (simp add: example_request_def)
  have h5: "parseURL example_platform (url example_request)
      = Inr \<lparr>origin = ''http://localhost:3000'', pathname = ''/api/premium/''\<rparr>"
    by (simp add: example_request_def example_platform_def)
  show ?thesis
    using h1 amount GET_challenge_amount [OF h4 h5, of example_env_decimal_amount]
    by (simp add: number_toString_examples)
qed

subsection \<open>What reaches the facilitator\<close>

text \<open>
  In route.js the header goes to \<open>settlePayment\<close> as it was received, and every other field of
  the call comes from the configuration and the request's URL.
\<close>

lemma GET_forwards_header:
  assumes "headers request ''x-payment'' = Some h" and "h \<noteq> []"
      and "buildPaymentConfig P env request = Inr cfg"
      and "env ''THIRDWEB_SECRET_KEY'' = Some sk" and "sk \<noteq> []"
      and "env ''THIRDWEB_VAULT_ACCESS_TOKEN'' = Some vt" and "vt \<noteq> []"
      and "createThirdwebClient P sk = Inr ()"
      and "facilitator P sk (SERVER_WALLET_ADDRESS env) vt = Inr ()"
  shows "\<exists>rest. calls (GET P env request) = Settle (settlementArgs P env cfg h sk vt) # rest
           \<and> arg_paymentData (settlementArgs P env cfg h sk vt) = h"
  by (simp add: GET_paid [OF assms] calls_def settlementArgs_def Let_def split: sum.splits)

lemma layout_resourceUrl_parses:
  assumes "parseURL P (url request) = Inr u"
  shows "\<exists>r. layout_resourceUrl P env request = Inr r"
  using assms by (simp add: layout_resourceUrl_def)

lemma layout_GET_posts:
  assumes "headers request ''x-payment'' = Some h" and "h \<noteq> []"
      and "decodePayment P h = Inr paymentPayload"
      and "env ''MERCHANT_ADDRESS'' = Some m" and "m \<noteq> []"
      and "m \<noteq> ''0x0000000000000000000000000000000000000000''"
      and "layout_resourceUrl P env request = Inr r"
  shows "\<exists>rest. calls (layout_GET P env request) =
           FacilitatorPost (str_or (env ''FACILITATOR_URL'') ''https://x402.org/facilitator'' @ ''/settle'')
             (layout_settleBody paymentPayload (layout_paymentRequirements P env paymentPayload r))
           # rest"
proof -
  let ?target = "str_or (env ''FACILITATOR_URL'') ''https://x402.org/facilitator'' @ ''/settle''"
  let ?posted = "layout_settleBody paymentPayload (layout_paymentRequirements P env paymentPayload r)"
  have merchant: "MERCHANT_ADDRESS env = m"
    using assms(4,5) by (simp add: MERCHANT_ADDRESS_def str_or_def)
  have hdr: "\<not> str_falsy (headers request ''x-payment'')"
      "str_value (headers request ''x-payment'') = h"
    using assms(1,2) by (simp_all add: str_falsy_def str_value_def)
  show ?thesis
  proof (cases "facilitatorSettle P ?target ?posted")
    case (Inl message)
    then show ?thesis
      using assms(3,5,6,7)
      by (simp add: layout_GET_def Let_def hdr merchant calls_def)
  next
    case (Inr answer)
    obtain ok facilitatorData where "answer = (ok, facilitatorData)"
      by (cases answer)
    with Inr show ?thesis
      using assms(3,5,6,7)
      by (simp add: layout_GET_def Let_def hdr merchant calls_def split: prod.splits)
  qed
qed

lemma layout_settleBody_fields:
  "getp (layout_settleBody paymentPayload requirements) ''paymentPayload'' = Some paymentPayload"
  "getp (layout_settleBody paymentPayload requirements) ''paymentRequirements'' = Some requirements"
  "map fst (entries (layout_settleBody paymentPayload requirements))
     = [''x402Version'', ''paymentPayload'', ''paymentRequirements'']"
  by (simp_all add: layout_settleBody_def object_def)

lemma layout_paymentRequirements_network:
  "getp (layout_paymentRequirements P env paymentPayload r) ''network''
     = getp paymentPayload ''network''"
  by (cases "getp paymentPayload ''network''")
     (simp_all add: layout_paymentRequirements_def object_def usdc_cases Let_def)

lemma example_decoding_facts:
  "decodePayment example_decoding_platform ''eyJ4NDAyIjoxfQ=='' = Inr example_payload"
  "example_env ''MERCHANT_ADDRESS'' = Some ''0x1111111111111111111111111111111111111111''"
  "''0x1111111111111111111111111111111111111111'' \<noteq> []"
  "''0x1111111111111111111111111111111111111111'' \<noteq> ''0x0000000000000000000000000000000000000000''"
  "parseURL example_decoding_platform (url example_paid_request)
     = Inr \<lparr>origin = ''http://localhost:3000'', pathname = ''/api/premium/''\<rparr>"
  by (simp_all add: example_decoding_platform_def example_platform_def example_env_def
      example_paid_request_def)



text \<open>
  C5 fails on the handler in app/layout.js. Under the same conditions, the requirements that
  are posted to the facilitator for verification and settlement take their \<open>network\<close> from
  the decoded proof, not from the server's configuration.
\<close>

theorem C5_layout_GET_network_from_proof:
  assumes "headers request ''x-payment'' = Some h" and "h \<noteq> []"
      and "decodePayment P h = Inr paymentPayload"
      and "env ''MERCHANT_ADDRESS'' = Some m" and "m \<noteq> []"
      and "m \<noteq> ''0x0000000000000000000000000000000000000000''"
      and "parseURL P (url request) = Inr u"
  shows "\<exists>target posted requirements rest.
           calls (layout_GET P env request) = FacilitatorPost target posted # rest
         \<and> getp posted ''paymentRequirements'' = Some requirements
         \<and> getp requirements ''network'' = getp paymentPayload ''network''"
proof -
  obtain r where r: "layout_resourceUrl P env request = Inr r"
    using layout_resourceUrl_parses [OF assms(7)] by blast
  from layout_GET_posts [OF assms(1-6) r] show ?thesis
    using layout_settleBody_fields(2) layout_paymentRequirements_network by blast
qed

theorem C5_layout_GET_network_from_proof_witness:
  "NETWORK example_env = ''base''
   \<and> answer_field (layout_GET example_decoding_platform example_env example_request) ''network''
       = Some (JStr ''eip155:8453'')
   \<and> getp example_payload ''network'' = Some (JStr ''base-sepolia'')
   \<and> (\<exists>target posted requirements rest.
         calls (layout_GET example_decoding_platform example_env example_paid_request)
           = FacilitatorPost target posted # rest
       \<and> getp posted ''paymentRequirements'' = Some requirements
       \<and> getp requirements ''network'' = Some (JStr ''base-sepolia''))"
proof -
  have net: "NETWORK example_env = ''base''"
    by (simp add: NETWORK_def example_env_def str_or_def)
  have challenge: "answer_field (layout_GET example_decoding_platform example_env example_request)
      ''network'' = Some (JStr ''eip155:8453'')"
    by (simp add: layout_GET_def Let_def net example_request_def str_falsy_def
        layout_resourceUrl_def example_decoding_platform_def example_platform_def
        answer_field_def jsonResponse_def object_def spread_def usdc_cases)
  have proof_net: "getp example_payload ''network'' = Some (JStr ''base-sepolia'')"
    by (simp add: example_payload_def)
  from C5_layout_GET_network_from_proof
    [where env = example_env, OF example_paid_facts(1,2) example_decoding_facts(1)
      example_decoding_facts(2,3,4) example_decoding_facts(5)]
    net challenge proof_net
  show ?thesis
    by auto
qed

subsection \<open>Object literals\<close>

lemma map_of_rev_distinct: "distinct (map fst xs) \<Longrightarrow> map_of (rev xs) k = map_of xs k"
proof (induction xs)
  case Nil
  then show ?case by simp
next
  case (Cons x xs)
  then have "map_of xs (fst x) = None"
    by (simp add: map_of_eq_None_iff)
  with Cons show ?case
    by (auto simp add: map_add_def split: option.splits)
qed

lemma set_key_keys: "fst ` set (set_key k v acc) = insert k (fst ` set acc)"
proof (induction acc)
  case Nil
  then show ?case by simp
next
  case (Cons a acc)
  obtain k' v' where a: "a = (k', v')"
    by (cases a)
  show ?case
  proof (cases "k' = k")
    case True
    then show ?thesis by (simp add: a)
  next
    case False
    with Cons show ?thesis by (simp add: a insert_commute)
  qed
qed

lemma set_key_distinct: "distinct (map fst acc) \<Longrightarrow> distinct (map fst (set_key k v acc))"
  by (induction acc) (auto simp add: set_key_keys)

lemma set_key_map_of: "map_of (set_key k v acc) k' = (if k' = k then Some v else map_of acc k')"
  by (induction acc) auto

lemma foldl_set_key_distinct:
  "distinct (map fst acc) \<Longrightarrow>
   distinct (map fst (foldl (\<lambda>acc (k, v). case v of None \<Rightarrow> acc | Some w \<Rightarrow> set_key k w acc) acc es))"
proof (induction es arbitrary: acc)
  case Nil
  then show ?case by simp
next
  case (Cons e es)
  obtain k v where e: "e = (k, v)"
    by (cases e)
  from Cons.prems have "distinct (map fst (case v of None \<Rightarrow> acc | Some w \<Rightarrow> set_key k w acc))"
    by (cases v) (simp_all add: set_key_distinct)
  from Cons.IH [OF this] show ?case
    by (simp add: e)
qed

text \<open>A literal read field by field: the last entry decides.\<close>

lemma getp_object_snoc:
  "getp (object (es @ [(k, v)])) k'
     = (case v of None \<Rightarrow> getp (object es) k'
        | Some w \<Rightarrow> if k' = k then Some w else getp (object es) k')"
proof -
  let ?acc = "foldl (\<lambda>acc (k, v). case v of None \<Rightarrow> acc | Some w \<Rightarrow> set_key k w acc) [] es"
  have d: "distinct (map fst ?acc)"
    by (rule foldl_set_key_distinct) simp
  show ?thesis
  proof (cases v)
    case None
    then show ?thesis by (simp add: object_def)
  next
    case (Some w)
    have "distinct (map fst (set_key k w ?acc))"
      using d by (rule set_key_distinct)
    then show ?thesis
      using d by (simp add: object_def Some map_of_rev_distinct set_key_map_of)
  qed
qed

lemma getp_spread: "getp (object (spread p)) k = getp p k"
proof (cases p)
  case (JObj kvs)
  have "getp (object (spread (JObj kvs))) k = map_of (rev kvs) k"
  proof (induction kvs rule: rev_induct)
    case Nil
    then show ?case by (simp add: object_def spread_def)
  next
    case (snoc a kvs)
    obtain k' w where a: "a = (k', w)"
      by (cases a)
    have "spread (JObj (kvs @ [a])) = spread (JObj kvs) @ [(k', Some w)]"
      by (simp add: spread_def a)
    with snoc show ?case
      by (simp add: getp_object_snoc a)
  qed
  with JObj show ?thesis by simp
qed (simp_all add: object_def spread_def)

text \<open>\<open>{...p, k: v}\<close> reads \<open>v\<close> at \<open>k\<close> and reads as \<open>p\<close> everywhere else.\<close>

lemma getp_spread_with:
  "getp (object (spread p @ [(k, Some v)])) k' = (if k' = k then Some v else getp p k')"
  by (simp add: getp_object_snoc getp_spread)

subsection \<open>The network adapter of the page\<close>

lemma str_includes_iff: "str_includes s t \<longleftrightarrow> (\<exists>p q. s = p @ t @ q)"
proof (induction s)
  case Nil
  then show ?case by simp
next
  case (Cons c s)
  show ?case
  proof
    assume "str_includes (c # s) t"
    then consider "startsWith (c # s) t" | "str_includes s t"
      by auto
    then show "\<exists>p q. c # s = p @ t @ q"
    proof cases
      case 1
      then obtain q where "c # s = t @ q"
        by (auto simp add: startsWith_iff)
      then have "c # s = [] @ t @ q"
        by simp
      then show ?thesis by blast
    next
      case 2
      with Cons obtain p q where "s = p @ t @ q"
        by blast
      then have "c # s = (c # p) @ t @ q"
        by simp
      then show ?thesis by blast
    qed
  next
    assume "\<exists>p q. c # s = p @ t @ q"
    then obtain p q where pq: "c # s = p @ t @ q"
      by blast
    show "str_includes (c # s) t"
    proof (cases p)
      case Nil
      with pq have "startsWith (c # s) t"
        by (auto simp add: startsWith_iff)
      then show ?thesis by simp
    next
      case (Cons d p')
      with pq have "s = p' @ t @ q"
        by simp
      with Cons.IH show ?thesis
        by auto
    qed
  qed
qed

lemma includes_84532_includes_8453:
  assumes "str_includes s ''84532''"
  shows "str_includes s ''8453''"
proof -
  from assms obtain p q where "s = p @ ''84532'' @ q"
    by (auto simp add: str_includes_iff)
  then have "s = p @ ''8453'' @ (''2'' @ q)"
    by simp
  then show ?thesis
    unfolding str_includes_iff by blast
qed

text \<open>
  C6 fails on the tags of chain 84532. Every tag whose lower-case text contains \<open>84532\<close>
  (\<open>eip155:84532\<close>, \<open>base:84532\<close>, ...) contains \<open>8453\<close> as well, and the test for \<open>8453\<close> comes
  first: \<open>normalizeNetworkForSdk\<close> answers \<open>base\<close>, and so does the inline conversion of
  app/page.js. The branch that answers \<open>base-sepolia\<close> for \<open>84532\<close> is never reached.
\<close>

theorem C6_chain_84532_normalized_to_base:
  assumes "str_includes (toLowerCase tag) ''84532''"
  shows "normalizeNetworkForSdk (Some (JStr tag)) = Some (JStr ''base'')
       \<and> (str_includes tag ''84532'' \<longrightarrow> page_convertNetwork tag = ''base'')"
proof -
  let ?v = "toLowerCase tag"
  have "\<not> str_includes ''base'' ''84532''" "\<not> str_includes ''base-sepolia'' ''84532''"
       "\<not> str_includes [] ''84532''"
    by simp_all
  with assms have "?v \<noteq> ''base''" "?v \<noteq> ''base-sepolia''" "?v \<noteq> []"
    by metis+
  moreover from \<open>?v \<noteq> []\<close> have "tag \<noteq> []"
    by (auto simp add: toLowerCase_def)
  moreover have "str_includes ?v ''8453''"
    using assms by (rule includes_84532_includes_8453)
  ultimately have "normalizeNetworkForSdk (Some (JStr tag)) = Some (JStr ''base'')"
    by (simp add: normalizeNetworkForSdk_def Let_def)
  moreover have "page_convertNetwork tag = ''base''" if "str_includes tag ''84532''"
    using includes_84532_includes_8453 [OF that] by (simp add: page_convertNetwork_def)
  ultimately show ?thesis
    by blast
qed

theorem C6_chain_84532_normalized_to_base_witness:
  "str_includes (toLowerCase ''eip155:84532'') ''84532''
   \<and> normalizeNetworkForSdk (Some (JStr ''eip155:84532'')) = Some (JStr ''base'')
   \<and> page_convertNetwork ''eip155:84532'' = ''base''"
proof -
  have low: "toLowerCase ''eip155:84532'' = ''eip155:84532''"
    by (simp add: toLowerCase_def lower_char_def)
  have inc: "str_includes ''eip155:84532'' ''84532''"
    by simp
  from C6_chain_84532_normalized_to_base [of "''eip155:84532''"] low inc show ?thesis
    by simp
qed

text \<open>The rest of the adapter does what C6 says.\<close>

lemma normalizeNetworkForSdk_examples:
  "normalizeNetworkForSdk (Some (JStr ''base-sepolia'')) = Some (JStr ''base-sepolia'')"
  "normalizeNetworkForSdk (Some (JStr ''eip155:8453'')) = Some (JStr ''base'')"
  "normalizeNetworkForSdk (Some (JStr ''base:8453'')) = Some (JStr ''base'')"
  "normalizeNetworkForSdk (Some (JStr ''Base'')) = Some (JStr ''base'')"
  "normalizeNetworkForSdk (Some (JStr ''base:84532'')) = Some (JStr ''base'')"
  by (simp_all add: normalizeNetworkForSdk_def toLowerCase_def lower_char_def Let_def)

lemma normalizeNetworkForSdk_8453:
  assumes "str_includes (toLowerCase tag) ''8453''"
  shows "normalizeNetworkForSdk (Some (JStr tag)) = Some (JStr ''base'')"
proof -
  let ?v = "toLowerCase tag"
  have "\<not> str_includes ''base-sepolia'' ''8453''" "\<not> str_includes [] ''8453''"
    by simp_all
  with assms have "?v \<noteq> ''base-sepolia''" "?v \<noteq> []"
    by metis+
  moreover from \<open>?v \<noteq> []\<close> have "tag \<noteq> []"
    by (auto simp add: toLowerCase_def)
  ultimately show ?thesis
    using assms by (simp add: normalizeNetworkForSdk_def Let_def)
qed

subsection \<open>The page after the retry\<close>

lemma handleProcessPayment_requests: "length (snd (handleProcessPayment B st)) \<le> 1"
  by (simp add: handleProcessPayment_def Let_def split: option.splits sum.splits)

lemma handleProcessPayment_sent:
  "snd (handleProcessPayment B st) = [Some h] \<longrightarrow>
     (\<exists>st3 info held.
         fst (handleProcessPayment B st) = afterRetry B st3 (fetch B (Some h))
       \<and> paymentInfo st3 = paymentInfo st
       \<and> paymentInfo st = Some info
       \<and> getp info ''x402Requirements'' = Some held)"
  by (simp add: handleProcessPayment_def Let_def caught_def split: option.splits sum.splits) auto

lemma not_ok_402: "f_status response = 402 \<Longrightarrow> \<not> ok response"
  by (simp add: ok_def)

lemma afterRetry_402:
  assumes "f_status response = 402" and "f_json response = Inr data"
  shows "paymentInfo (afterRetry B st3 (Inr response)) = updatePaymentInfo data (paymentInfo st3)"
proof (cases "data = JNull")
  case True
  then show ?thesis
    using assms by (simp add: afterRetry_def not_ok_402 caught_def updatePaymentInfo_def)
next
  case False
  then show ?thesis
    using assms by (simp add: afterRetry_def not_ok_402 Let_def)
qed

lemma afterRetry_unexpected:
  assumes "f_status response \<noteq> 402" and "\<not> ok response"
  shows "afterRetry B st3 (Inr response)
           = st3\<lparr>error := Some (JStr (''Unexpected status: '' @ string_of_nat (f_status response))),
                 uiStatus := Error\<rparr>"
  using assms by (simp add: afterRetry_def caught_def)

lemma getp_Some_truthy: "getp info k = Some v \<Longrightarrow> truthy (Some info)"
  by (cases info) simp_all

lemma updatePaymentInfo_refresh:
  assumes "getp data ''accepts'' = Some (JArr (a # others))" and "truthy (Some info)"
  shows "updatePaymentInfo data (Some info)
           = Some (object (spread info @ [(''x402Requirements'', Some a)]))"
  using assms by (simp add: updatePaymentInfo_def)

lemma updatePaymentInfo_keep:
  assumes "\<And>a others. getp data ''accepts'' \<noteq> Some (JArr (a # others))"
  shows "updatePaymentInfo data prev = prev"
  using assms
  by (simp add: updatePaymentInfo_def split: option.splits json.splits list.splits)

text \<open>
  C7. When the retry (the request that carried the \<open>X-PAYMENT\<close> header) is answered 402 with a
  JSON body: if \<open>accepts\<close> is a non-empty array, the held payment info becomes the same
  object with \<open>x402Requirements\<close> replaced by \<open>accepts[0]\<close>, every other field reading as
  before; if the body has no \<open>accepts\<close> array, or an empty one, the held payment info is
  unchanged.
\<close>

theorem C7_retry_402_refreshes_requirements:
  assumes "snd (handleProcessPayment B st) = [Some h]"
      and "fetch B (Some h) = Inr response"
      and "f_status response = 402"
      and "f_json response = Inr data"
  shows "\<exists>info. paymentInfo st = Some info
         \<and> (\<forall>a others. getp data ''accepts'' = Some (JArr (a # others)) \<longrightarrow>
              (\<exists>info'. paymentInfo (fst (handleProcessPayment B st)) = Some info'
                 \<and> getp info' ''x402Requirements'' = Some a
                 \<and> (\<forall>k. k \<noteq> ''x402Requirements'' \<longrightarrow> getp info' k = getp info k)))
         \<and> ((\<forall>a others. getp data ''accepts'' \<noteq> Some (JArr (a # others))) \<longrightarrow>
              paymentInfo (fst (handleProcessPayment B st)) = Some info)"
proof -
  from assms(1) handleProcessPayment_sent [of B st h]
  obtain st3 info held where
    after: "fst (handleProcessPayment B st) = afterRetry B st3 (fetch B (Some h))"
    and same: "paymentInfo st3 = paymentInfo st"
    and info: "paymentInfo st = Some info"
    and held: "getp info ''x402Requirements'' = Some held"
    by blast
  have new: "paymentInfo (fst (handleProcessPayment B st)) = updatePaymentInfo data (Some info)"
    by (simp add: after assms(2) afterRetry_402 [OF assms(3,4)] same info)
  have truthy: "truthy (Some info)"
    using held by (rule getp_Some_truthy)
  have refreshed: "\<exists>info'. paymentInfo (fst (handleProcessPayment B st)) = Some info'
      \<and> getp info' ''x402Requirements'' = Some a
      \<and> (\<forall>k. k \<noteq> ''x402Requirements'' \<longrightarrow> getp info' k = getp info k)"
    if "getp data ''accepts'' = Some (JArr (a # others))" for a others
    by (simp add: new updatePaymentInfo_refresh [OF that truthy] getp_spread_with)
  have kept: "paymentInfo (fst (handleProcessPayment B st)) = Some info"
    if "\<forall>a others. getp data ''accepts'' \<noteq> Some (JArr (a # others))"
    using that by (simp add: new updatePaymentInfo_keep)
  from info refreshed kept show ?thesis
    by blast
qed

lemma example_retry_sent:
  "snd (handleProcessPayment example_browser_402 example_state) = [Some ''eyJ4NDAyIjoxfQ=='']"
  "snd (handleProcessPayment example_browser example_state) = [Some ''eyJ4NDAyIjoxfQ=='']"
  by (simp_all add: handleProcessPayment_def example_browser_402_def example_browser_def
      example_state_def targetNetwork_def js_or_def Let_def getp_spread)

theorem C7_retry_402_refreshes_requirements_witness:
  "snd (handleProcessPayment example_browser_402 example_state) = [Some ''eyJ4NDAyIjoxfQ=='']
   \<and> (\<exists>info'. paymentInfo (fst (handleProcessPayment example_browser_402 example_state)) = Some info'
         \<and> getp info' ''x402Requirements'' = Some example_refreshed
         \<and> getp info' ''amount'' = Some (JStr ''100000'')
         \<and> getp info' ''network'' = Some (JStr ''base:8453''))"
proof -
  let ?response = "\<lparr>f_status = 402,
      f_json = Inr (JObj [(''error'', JStr ''Payment verification error''),
                          (''accepts'', JArr [example_refreshed])]),
      f_contentType = Some ''application/json'', f_blobUrl = ''blob:1''\<rparr>"
  let ?data = "JObj [(''error'', JStr ''Payment verification error''),
                     (''accepts'', JArr [example_refreshed])]"
  have h2: "fetch example_browser_402 (Some ''eyJ4NDAyIjoxfQ=='') = Inr ?response"
    by (simp add: example_browser_402_def)
  have h3: "f_status ?response = 402" and h4: "f_json ?response = Inr ?data"
    by simp_all
  have accepts: "getp ?data ''accepts'' = Some (JArr (example_refreshed # []))"
    by simp
  have held: "paymentInfo example_state = Some (JObj
        [(''network'', JStr ''base:8453''),
         (''amount'', JStr ''100000''),
         (''x402Requirements'', JObj
            [(''network'', JStr ''base''),
             (''maxAmountRequired'', JStr ''100000''),
             (''resource'', JStr ''http://localhost:3000/api/premium'')])])"
    by (simp add: example_state_def)
  from C7_retry_402_refreshes_requirements [OF example_retry_sent(1) h2 h3 h4] accepts held
  obtain info' where
    "paymentInfo (fst (handleProcessPayment example_browser_402 example_state)) = Some info'"
    "getp info' ''x402Requirements'' = Some example_refreshed"
    "\<forall>k. k \<noteq> ''x402Requirements'' \<longrightarrow> getp info' k = getp (JObj
        [(''network'', JStr ''base:8453''),
         (''amount'', JStr ''100000''),
         (''x402Requirements'', JObj
            [(''network'', JStr ''base''),
             (''maxAmountRequired'', JStr ''100000''),
             (''resource'', JStr ''http://localhost:3000/api/premium'')])]) k"
    by fastforce
  then show ?thesis
    using example_retry_sent(1) by simp
qed

text \<open>
  C8. When the answer to the first request, or to the retry, has a status that is neither
  402 nor in 200 to 299, the page ends in the status \<open>error\<close> with the message
  "Unexpected status: " followed by the status; the held payment info is untouched. Each
  handler sends at most one request, and in the status \<open>error\<close> the page offers nothing
  but Reset.
\<close>

theorem C8_unexpected_status_is_terminal:
  assumes "f_status response \<noteq> 402" and "\<not> ok response"
  shows "(fetch B None = Inr response \<longrightarrow>
            handleAccessContent B st =
              (st\<lparr>uiStatus := Error,
                  error := Some (JStr (''Unexpected status: '' @ string_of_nat (f_status response))),
                  step := 1\<rparr>, [None]))
       \<and> (snd (handleProcessPayment B st) = [Some h] \<and> fetch B (Some h) = Inr response \<longrightarrow>
            uiStatus (fst (handleProcessPayment B st)) = Error
          \<and> error (fst (handleProcessPayment B st))
              = Some (JStr (''Unexpected status: '' @ string_of_nat (f_status response)))
          \<and> paymentInfo (fst (handleProcessPayment B st)) = paymentInfo st)
       \<and> length (snd (handleAccessContent B st)) = 1
       \<and> length (snd (handleProcessPayment B st)) \<le> 1
       \<and> (\<forall>failed. uiStatus failed = Error \<longrightarrow> buttons failed = [Reset])"
proof -
  have first: "handleAccessContent B st =
      (st\<lparr>uiStatus := Error,
          error := Some (JStr (''Unexpected status: '' @ string_of_nat (f_status response))),
          step := 1\<rparr>, [None])"
    if "fetch B None = Inr response"
    using that assms by (simp add: handleAccessContent_def Let_def)
  have retry: "uiStatus (fst (handleProcessPayment B st)) = Error
          \<and> error (fst (handleProcessPayment B st))
              = Some (JStr (''Unexpected status: '' @ string_of_nat (f_status response)))
          \<and> paymentInfo (fst (handleProcessPayment B st)) = paymentInfo st"
    if "snd (handleProcessPayment B st) = [Some h]" "fetch B (Some h) = Inr response"
  proof -
    from that(1) handleProcessPayment_sent [of B st h]
    obtain st3 where "fst (handleProcessPayment B st) = afterRetry B st3 (fetch B (Some h))"
      and "paymentInfo st3 = paymentInfo st"
      by blast
    then show ?thesis
      by (simp add: that(2) afterRetry_unexpected [OF assms])
  qed
  have one: "length (snd (handleAccessContent B st)) = 1"
    by (simp add: handleAccessContent_def Let_def)
  have only_reset: "buttons failed = [Reset]" if "uiStatus failed = Error" for failed
    using that by (simp add: buttons_def)
  from first retry one handleProcessPayment_requests [of B st] only_reset show ?thesis
    by blast
qed

theorem C8_unexpected_status_is_terminal_witness:
  "fetch example_browser None = fetch example_browser (Some ''eyJ4NDAyIjoxfQ=='')
   \<and> snd (handleProcessPayment example_browser example_state) = [Some ''eyJ4NDAyIjoxfQ=='']
   \<and> error (fst (handleAccessContent example_browser example_state))
       = Some (JStr ''Unexpected status: 500'')
   \<and> uiStatus (fst (handleProcessPayment example_browser example_state)) = Error
   \<and> error (fst (handleProcessPayment example_browser example_state))
       = Some (JStr ''Unexpected status: 500'')"
proof -
  let ?response = "\<lparr>f_status = 500,
      f_json = Inr (JObj [(''error'', JStr ''Video file not found'')]),
      f_contentType = Some ''application/json'', f_blobUrl = ''blob:1''\<rparr>"
  have f: "fetch example_browser None = Inr ?response"
      "fetch example_browser (Some ''eyJ4NDAyIjoxfQ=='') = Inr ?response"
    by (simp_all add: example_browser_def)
  have h1: "f_status ?response \<noteq> 402" and h2: "\<not> ok ?response"
    by (simp_all add: ok_def)
  have digits: "string_of_nat (f_status ?response) = ''500''"
    by (simp add: string_of_nat.simps)
  from C8_unexpected_status_is_terminal [OF h1 h2, of example_browser example_state
      "''eyJ4NDAyIjoxfQ==''"] f example_retry_sent(2) digits
  show ?thesis
    by simp
qed

subsection \<open>Remarks on the handler of route.js\<close>

text \<open>
  In route.js nothing in the call to \<open>settlePayment\<close> comes from the proof but \<open>paymentData\<close>
  itself: the configuration that is built does not depend on the headers, and two calls for
  different headers differ in \<open>paymentData\<close> only.
\<close>

lemma buildPaymentConfig_ignores_headers:
  "buildPaymentConfig P env (request\<lparr>headers := hs\<rparr>) = buildPaymentConfig P env request"
  by (simp add: buildPaymentConfig_def buildResourceUrl_def)

lemma settlementArgs_proof_only_in_paymentData:
  "settlementArgs P env cfg h sk vt = (settlementArgs P env cfg h' sk vt)\<lparr>arg_paymentData := h\<rparr>"
  by (simp add: settlementArgs_def Let_def)

text \<open>
  The merchant address is not among the checks of this handler: with the credentials set and
  \<open>MERCHANT_ADDRESS\<close> unset, a request with a header reaches \<open>settlePayment\<close> with the zero
  address as \<open>payTo\<close>.
\<close>

lemma GET_unset_merchant_reaches_settlement:
  assumes "headers request ''x-payment'' = Some h" and "h \<noteq> []"
      and "buildPaymentConfig P env request = Inr cfg"
      and "env ''THIRDWEB_SECRET_KEY'' = Some sk" and "sk \<noteq> []"
      and "env ''THIRDWEB_VAULT_ACCESS_TOKEN'' = Some vt" and "vt \<noteq> []"
      and "createThirdwebClient P sk = Inr ()"
      and "facilitator P sk (SERVER_WALLET_ADDRESS env) vt = Inr ()"
      and "env ''MERCHANT_ADDRESS'' = None"
  shows "\<exists>args rest. calls (GET P env request) = Settle args # rest
           \<and> arg_payTo args = ''0x0000000000000000000000000000000000000000''"
proof -
  have "arg_payTo (settlementArgs P env cfg h sk vt) = ''0x0000000000000000000000000000000000000000''"
    using assms(10) by (simp add: settlementArgs_def Let_def MERCHANT_ADDRESS_def str_or_def)
  with GET_forwards_header [OF assms(1-9)] show ?thesis
    by blast
qed

end
